theory Spec2Isabelle
  imports Complex_Main
begin

section \<open>Flight dynamics model: data\<close>

text \<open>
  The source computes on JavaScript numbers. Finite numbers are modelled as
  \<^typ>\<open>real\<close> in exact arithmetic; rounding, overflow and signed zeros are outside the
  model. The argument \<open>dtSeconds\<close> of \<open>update\<close> is tested by the source with
  \<open>Number.isFinite\<close>, so it ranges over \<open>jsnum\<close>, which adds NaN and the two
  infinities; every other number (controls, parameters, state) is finite.

  The source divides without a guard by \<open>massKg\<close>, by \<open>wingAreaM2\<close> and by
  \<open>pi * aspectRatio * oswaldEfficiency\<close>. Where such a divisor is zero JavaScript gives
  an infinity or NaN and HOL gives 0, so the model follows the source for parameters whose
  mass, wing area, wing span and Oswald efficiency are not zero, which the default
  aircraft satisfies. The other divisions of the source are guarded by the source itself.

  Field names are prefixed where the source uses the one-letter names \<open>x\<close>, \<open>y\<close>,
  \<open>z\<close>, \<open>w\<close>, \<open>p\<close>, \<open>q\<close>, \<open>r\<close>, and \<open>normalize\<close> is \<open>normalize_vec\<close>, the
  plain name being a constant of HOL.
\<close>

datatype jsnum = Num real | PosInfinity | NegInfinity | NaN

fun isFinite :: "jsnum \<Rightarrow> bool" where
  "isFinite (Num d) = True"
| "isFinite PosInfinity = False"
| "isFinite NegInfinity = False"
| "isFinite NaN = False"

text \<open>The comparison \<open>v <= 0\<close> of the source on a JavaScript number.\<close>

fun le_zero :: "jsnum \<Rightarrow> bool" where
  "le_zero (Num d) = (d \<le> 0)"
| "le_zero PosInfinity = False"
| "le_zero NegInfinity = True"
| "le_zero NaN = False"

record Vector3 =
  vec_x :: real
  vec_y :: real
  vec_z :: real

record Quaternion =
  quat_x :: real
  quat_y :: real
  quat_z :: real
  quat_w :: real

record AircraftParameters =
  massKg :: real
  wingAreaM2 :: real
  wingSpanM :: real
  maxThrustN :: real
  parasiteDragCoefficient :: real
  clSlopePerRad :: real
  oswaldEfficiency :: real

record ControlInputs =
  elevator :: real
  ailerons :: real
  rudder :: real
  throttle :: real

record BodyRates =
  rate_p :: real
  rate_q :: real
  rate_r :: real

record AircraftState =
  positionEnuMeters :: Vector3
  velocityEnuMetersPerSec :: Vector3
  yawRad :: real
  pitchRad :: real
  rollRad :: real
  orientation :: Quaternion
  angularRatesRadPerSec :: BodyRates

record FdmConfig =
  maxRollRateRadPerSec :: real
  maxPitchRateRadPerSec :: real
  maxYawRateRadPerSec :: real
  rollRateGain :: real
  pitchRateGain :: real
  yawRateGain :: real
  stallAlphaRad :: real
  coordinationGain :: real
  lateralDragCoefficient :: real

definition GRAVITY_M_S2 :: real where
  "GRAVITY_M_S2 = 9.80665"

definition AIR_DENSITY_KG_M3 :: real where
  "AIR_DENSITY_KG_M3 = 1.225"

definition DefaultFdmConfig :: FdmConfig where
  "DefaultFdmConfig =
     \<lparr> maxRollRateRadPerSec = pi,
       maxPitchRateRadPerSec = pi / 2,
       maxYawRateRadPerSec = pi / 2,
       rollRateGain = 0.6,
       pitchRateGain = 0.5,
       yawRateGain = 0.4,
       stallAlphaRad = 15 * (pi / 180),
       coordinationGain = 0.7,
       lateralDragCoefficient = 0.6 \<rparr>"

section \<open>Math utilities\<close>

text \<open>\<open>Math.atan2(y, x)\<close> on finite arguments; both zeros are taken as \<open>+0\<close>.\<close>

definition atan2 :: "real \<Rightarrow> real \<Rightarrow> real" where
  "atan2 y x =
     (if 0 < x then arctan (y / x)
      else if x < 0 then (if 0 \<le> y then arctan (y / x) + pi else arctan (y / x) - pi)
      else if 0 < y then pi / 2
      else if y < 0 then - (pi / 2)
      else 0)"

definition clamp :: "real \<Rightarrow> real \<Rightarrow> real \<Rightarrow> real" where
  "clamp v lo hi = max lo (min hi v)"

definition add :: "Vector3 \<Rightarrow> Vector3 \<Rightarrow> Vector3" where
  "add a b = \<lparr> vec_x = vec_x a + vec_x b, vec_y = vec_y a + vec_y b, vec_z = vec_z a + vec_z b \<rparr>"

definition scale :: "Vector3 \<Rightarrow> real \<Rightarrow> Vector3" where
  "scale v s = \<lparr> vec_x = vec_x v * s, vec_y = vec_y v * s, vec_z = vec_z v * s \<rparr>"

definition magnitude :: "Vector3 \<Rightarrow> real" where
  "magnitude v = sqrt (vec_x v * vec_x v + vec_y v * vec_y v + vec_z v * vec_z v)"

definition normalize_vec :: "Vector3 \<Rightarrow> Vector3" where
  "normalize_vec v =
     (let m = magnitude v
      in if m > 0.000001 then scale v (1 / m) else \<lparr> vec_x = 0, vec_y = 0, vec_z = 0 \<rparr>)"

definition cross :: "Vector3 \<Rightarrow> Vector3 \<Rightarrow> Vector3" where
  "cross a b =
     \<lparr> vec_x = vec_y a * vec_z b - vec_z a * vec_y b,
       vec_y = vec_z a * vec_x b - vec_x a * vec_z b,
       vec_z = vec_x a * vec_y b - vec_y a * vec_x b \<rparr>"

text \<open>A 3x3 matrix is the source's array of nine numbers, row by row.\<close>

definition multiplyMatrixVector3 :: "real list \<Rightarrow> Vector3 \<Rightarrow> Vector3" where
  "multiplyMatrixVector3 r v =
     \<lparr> vec_x = r ! 0 * vec_x v + r ! 1 * vec_y v + r ! 2 * vec_z v,
       vec_y = r ! 3 * vec_x v + r ! 4 * vec_y v + r ! 5 * vec_z v,
       vec_z = r ! 6 * vec_x v + r ! 7 * vec_y v + r ! 8 * vec_z v \<rparr>"

definition transpose3 :: "real list \<Rightarrow> real list" where
  "transpose3 r = [r ! 0, r ! 3, r ! 6, r ! 1, r ! 4, r ! 7, r ! 2, r ! 5, r ! 8]"

definition quaternionMultiply :: "Quaternion \<Rightarrow> Quaternion \<Rightarrow> Quaternion" where
  "quaternionMultiply a b =
     \<lparr> quat_x = quat_w a * quat_x b + quat_x a * quat_w b + quat_y a * quat_z b - quat_z a * quat_y b,
       quat_y = quat_w a * quat_y b - quat_x a * quat_z b + quat_y a * quat_w b + quat_z a * quat_x b,
       quat_z = quat_w a * quat_z b + quat_x a * quat_y b - quat_y a * quat_x b + quat_z a * quat_w b,
       quat_w = quat_w a * quat_w b - quat_x a * quat_x b - quat_y a * quat_y b - quat_z a * quat_z b \<rparr>"

text \<open>\<open>Math.hypot(q.x, q.y, q.z, q.w)\<close>.\<close>

definition quaternionMagnitude :: "Quaternion \<Rightarrow> real" where
  "quaternionMagnitude q =
     sqrt (quat_x q * quat_x q + quat_y q * quat_y q + quat_z q * quat_z q + quat_w q * quat_w q)"

definition quaternionNormalize :: "Quaternion \<Rightarrow> Quaternion" where
  "quaternionNormalize q =
     (let m = quaternionMagnitude q
      in if m = 0 then \<lparr> quat_x = 0, quat_y = 0, quat_z = 0, quat_w = 1 \<rparr>
         else (let s = 1 / m
               in \<lparr> quat_x = quat_x q * s, quat_y = quat_y q * s,
                    quat_z = quat_z q * s, quat_w = quat_w q * s \<rparr>))"

definition integrateOrientation :: "Quaternion \<Rightarrow> real \<Rightarrow> real \<Rightarrow> real \<Rightarrow> real \<Rightarrow> Quaternion" where
  "integrateOrientation q p qRate r dt =
     (let omega = \<lparr> quat_x = p, quat_y = qRate, quat_z = r, quat_w = 0 \<rparr>;
          dq = quaternionMultiply q omega;
          qn = \<lparr> quat_x = quat_x q + 0.5 * quat_x dq * dt,
                 quat_y = quat_y q + 0.5 * quat_y dq * dt,
                 quat_z = quat_z q + 0.5 * quat_z dq * dt,
                 quat_w = quat_w q + 0.5 * quat_w dq * dt \<rparr>
      in quaternionNormalize qn)"

definition matrixFromQuaternion :: "Quaternion \<Rightarrow> real list" where
  "matrixFromQuaternion q =
     (let x = quat_x q; y = quat_y q; z = quat_z q; w = quat_w q;
          xx = x * x; yy = y * y; zz = z * z;
          xy = x * y; xz = x * z; yz = y * z;
          wx = w * x; wy = w * y; wz = w * z;
          r00 = 1 - 2 * (yy + zz);
          r01 = 2 * (xy - wz);
          r02 = 2 * (xz + wy);
          r10 = 2 * (xy + wz);
          r11 = 1 - 2 * (xx + zz);
          r12 = 2 * (yz - wx);
          r20 = 2 * (xz - wy);
          r21 = 2 * (yz + wx);
          r22 = 1 - 2 * (xx + yy)
      in [r00, r01, r02, r10, r11, r12, r20, r21, r22])"

definition quaternionFromYawPitchRoll :: "real \<Rightarrow> real \<Rightarrow> real \<Rightarrow> Quaternion" where
  "quaternionFromYawPitchRoll yaw pitch roll =
     (let cy = cos (yaw * 0.5); sy = sin (yaw * 0.5);
          cp = cos (pitch * 0.5); sp = sin (pitch * 0.5);
          cr = cos (roll * 0.5); sr = sin (roll * 0.5)
      in \<lparr> quat_x = sr * cp * cy - cr * sp * sy,
           quat_y = cr * sp * cy + sr * cp * sy,
           quat_z = cr * cp * sy - sr * sp * cy,
           quat_w = cr * cp * cy + sr * sp * sy \<rparr>)"

text \<open>The result \<open>{yaw, pitch, roll}\<close> as a triple in that order.\<close>

definition yawPitchRollFromQuaternion :: "Quaternion \<Rightarrow> real \<times> real \<times> real" where
  "yawPitchRollFromQuaternion q =
     (let r = matrixFromQuaternion q;
          r20 = r ! 6; r21 = r ! 7; r22 = r ! 8; r10 = r ! 3; r00 = r ! 0;
          pitch = arcsin (- r20);
          roll = atan2 r21 r22;
          yawZ = atan2 r10 r00
      in (yawZ, pitch, roll))"

section \<open>Aerodynamic coefficients and forces\<close>

definition calculateLiftCoefficient :: "real \<Rightarrow> real \<Rightarrow> real \<Rightarrow> real" where
  "calculateLiftCoefficient alphaRad clSlope stallAlpha =
     (let limitedAlpha = clamp alphaRad (- stallAlpha) stallAlpha
      in clSlope * limitedAlpha)"

definition calculateDragCoefficient :: "real \<Rightarrow> real \<Rightarrow> real \<Rightarrow> real \<Rightarrow> real" where
  "calculateDragCoefficient cd0 cl aspectRatio oswald =
     (let k = 1 / (pi * aspectRatio * oswald)
      in cd0 + k * cl * cl)"

definition calculateLiftNewtons :: "real \<Rightarrow> real \<Rightarrow> real \<Rightarrow> real \<Rightarrow> real" where
  "calculateLiftNewtons cl airDensityKgM3 speedMS wingArea =
     0.5 * cl * airDensityKgM3 * speedMS * speedMS * wingArea"

definition calculateDragNewtons :: "real \<Rightarrow> real \<Rightarrow> real \<Rightarrow> real \<Rightarrow> real" where
  "calculateDragNewtons cd airDensityKgM3 speedMS wingArea =
     0.5 * cd * airDensityKgM3 * speedMS * speedMS * wingArea"

definition defaultParams :: AircraftParameters where
  "defaultParams =
     \<lparr> massKg = 1110, wingAreaM2 = 16.2, wingSpanM = 11.0, maxThrustN = 4500,
       parasiteDragCoefficient = 0.03, clSlopePerRad = 5.7, oswaldEfficiency = 0.8 \<rparr>"

definition defaultState :: AircraftState where
  "defaultState =
     \<lparr> positionEnuMeters = \<lparr> vec_x = 0, vec_y = 0, vec_z = 0 \<rparr>,
       velocityEnuMetersPerSec = \<lparr> vec_x = 0, vec_y = 0, vec_z = 0 \<rparr>,
       yawRad = 0, pitchRad = 0, rollRad = 0,
       orientation = \<lparr> quat_x = 0, quat_y = 0, quat_z = 0, quat_w = 1 \<rparr>,
       angularRatesRadPerSec = \<lparr> rate_p = 0, rate_q = 0, rate_r = 0 \<rparr> \<rparr>"

text \<open>\<open>createDefaultAircraft\<close> returns \<open>{params, state}\<close>.\<close>

definition createDefaultAircraft :: "AircraftParameters \<times> AircraftState" where
  "createDefaultAircraft = (defaultParams, defaultState)"

section \<open>The model and its update\<close>

record FlightDynamicsModel =
  params :: AircraftParameters
  config :: FdmConfig
  state :: AircraftState

text \<open>
  The constructor keeps the supplied state and then overwrites its orientation with the
  quaternion of the state's Euler angles.
\<close>

definition FlightDynamicsModel_new ::
  "AircraftParameters \<Rightarrow> AircraftState \<Rightarrow> FdmConfig \<Rightarrow> FlightDynamicsModel" where
  "FlightDynamicsModel_new ps initialState cfg =
     \<lparr> params = ps, config = cfg,
       state = initialState\<lparr> orientation :=
         quaternionFromYawPitchRoll (yawRad initialState) (pitchRad initialState)
           (rollRad initialState) \<rparr> \<rparr>"

text \<open>
  The body of the substep loop of \<open>update\<close> from \<open>// Velocity in body frame\<close> to
  \<open>forceBody\<close>: the force in the body frame, from the velocity in the body frame.
\<close>

definition bodyForce ::
  "AircraftParameters \<Rightarrow> FdmConfig \<Rightarrow> ControlInputs \<Rightarrow> Vector3 \<Rightarrow> Vector3" where
  "bodyForce ps cfg inputs vBody =
     (let u = vec_x vBody;
          vSide = vec_y vBody;
          w = vec_z vBody;
          vAeroBody = \<lparr> vec_x = max 0 u, vec_y = vSide, vec_z = w \<rparr>;
          speedAero = magnitude vAeroBody;
          effectiveU = max 0.001 (vec_x vAeroBody);
          alpha = (if speedAero < 0.1 then 0 else atan2 (vec_z vAeroBody) effectiveU);
          beta = (if speedAero < 0.1 then 0
                  else atan2 (vec_y vAeroBody)
                         (sqrt (max 0.000001 (vec_x vAeroBody) * max 0.000001 (vec_x vAeroBody)
                                + vec_z vAeroBody * vec_z vAeroBody)));
          aspectRatio = (wingSpanM ps * wingSpanM ps) / wingAreaM2 ps;
          cl = calculateLiftCoefficient alpha (clSlopePerRad ps) (stallAlphaRad cfg);
          cd = calculateDragCoefficient (parasiteDragCoefficient ps) cl aspectRatio
                 (oswaldEfficiency ps);
          liftN = calculateLiftNewtons cl AIR_DENSITY_KG_M3 speedAero (wingAreaM2 ps);
          dragN = calculateDragNewtons cd AIR_DENSITY_KG_M3 speedAero (wingAreaM2 ps);
          thrustN = maxThrustN ps * clamp (throttle inputs) 0 1;
          forwardDirBody = \<lparr> vec_x = 1, vec_y = 0, vec_z = 0 \<rparr>;
          vHatBody = (if speedAero < 0.001 then \<lparr> vec_x = 1, vec_y = 0, vec_z = 0 \<rparr>
                      else normalize_vec vAeroBody);
          spanHatBody = \<lparr> vec_x = 0, vec_y = 1, vec_z = 0 \<rparr>;
          liftDirBody = normalize_vec (cross vHatBody spanHatBody);
          dragDirBody = (if magnitude vBody < 0.001 then \<lparr> vec_x = - 1, vec_y = 0, vec_z = 0 \<rparr>
                         else normalize_vec \<lparr> vec_x = - u, vec_y = - vSide, vec_z = - w \<rparr>);
          qDyn = 0.5 * AIR_DENSITY_KG_M3 * speedAero * speedAero;
          cyBeta = - 0.98;
          sideForceN = qDyn * wingAreaM2 ps * cyBeta * beta
      in add (add (add (scale forwardDirBody thrustN) (scale liftDirBody liftN))
                (scale dragDirBody dragN))
           \<lparr> vec_x = 0, vec_y = sideForceN, vec_z = 0 \<rparr>)"

text \<open>
  The speed limit at the end of the loop body: a velocity faster than \<open>maxSpeed = 250\<close>
  is replaced by its normalised vector scaled by 250.
\<close>

definition limitSpeed :: "Vector3 \<Rightarrow> Vector3" where
  "limitSpeed v =
     (let speed = magnitude v;
          maxSpeed = 250
      in if speed > maxSpeed then scale (normalize_vec v) maxSpeed else v)"

text \<open>
  The first part of the body of the \<open>while\<close> loop of \<open>update\<close>, from
  \<open>// Angular kinematics\<close> to the Euler angles derived from the quaternion: the
  commanded body rates, the integrated orientation and its yaw, pitch and roll.
\<close>

definition attitudeStep ::
  "FdmConfig \<Rightarrow> ControlInputs \<Rightarrow> real \<Rightarrow> AircraftState \<Rightarrow> AircraftState" where
  "attitudeStep cfg inputs dt s =
     (let airspeedMS = magnitude (velocityEnuMetersPerSec s);
          speedFactor = clamp (airspeedMS / 50) 0 1;
          pCmd = ailerons inputs * maxRollRateRadPerSec cfg * rollRateGain cfg * speedFactor;
          qCmd = elevator inputs * maxPitchRateRadPerSec cfg * pitchRateGain cfg * speedFactor;
          rCmd0 = rudder inputs * maxYawRateRadPerSec cfg * yawRateGain cfg * speedFactor;
          rCmd = rCmd0 + - sin (rollRad s) * maxYawRateRadPerSec cfg * coordinationGain cfg
                           * speedFactor * 0.2;
          s1 = s\<lparr> angularRatesRadPerSec := \<lparr> rate_p = pCmd, rate_q = qCmd, rate_r = rCmd \<rparr>,
                   orientation := integrateOrientation (orientation s) pCmd qCmd rCmd dt \<rparr>;
          eul = yawPitchRollFromQuaternion (orientation s1)
      in s1\<lparr> yawRad := fst eul,
              pitchRad := clamp (fst (snd eul)) (- pi / 2 + 0.001) (pi / 2 - 0.001),
              rollRad := snd (snd eul) \<rparr>)"

text \<open>
  The middle part of the loop body, from \<open>// Build rotation matrices\<close> to
  \<open>accelerationEnu\<close>: the acceleration in the world frame of a state whose attitude
  has been stepped.
\<close>

definition accelerationEnu ::
  "AircraftParameters \<Rightarrow> FdmConfig \<Rightarrow> ControlInputs \<Rightarrow> AircraftState \<Rightarrow> Vector3" where
  "accelerationEnu ps cfg inputs s =
     (let rBodyToEnu = matrixFromQuaternion (orientation s);
          rEnuToBody = transpose3 rBodyToEnu;
          vBody = multiplyMatrixVector3 rEnuToBody (velocityEnuMetersPerSec s);
          forceBody = bodyForce ps cfg inputs vBody;
          aerodynamicForceEnu = multiplyMatrixVector3 rBodyToEnu forceBody;
          gravityForceEnu = \<lparr> vec_x = 0, vec_y = 0, vec_z = - massKg ps * GRAVITY_M_S2 \<rparr>;
          netForceEnu = add aerodynamicForceEnu gravityForceEnu
      in scale netForceEnu (1 / massKg ps))"

text \<open>
  One pass through the body of the loop with step \<open>dt\<close>: the attitude, the
  acceleration, then \<open>// Integrate translational motion\<close> with the speed limit.
\<close>

definition substep ::
  "AircraftParameters \<Rightarrow> FdmConfig \<Rightarrow> ControlInputs \<Rightarrow> real \<Rightarrow> AircraftState \<Rightarrow> AircraftState" where
  "substep ps cfg inputs dt s =
     (let s2 = attitudeStep cfg inputs dt s;
          acc = accelerationEnu ps cfg inputs s2;
          v = limitSpeed (add (velocityEnuMetersPerSec s2) (scale acc dt))
      in s2\<lparr> velocityEnuMetersPerSec := v,
              positionEnuMeters := add (positionEnuMeters s2) (scale v dt) \<rparr>)"

text \<open>
  The \<open>while (remaining > 1e-6)\<close> loop: each pass takes \<open>dt = min(maxStep, remaining)\<close>
  with \<open>maxStep = 0.02\<close>, runs the body and subtracts \<open>dt\<close> from \<open>remaining\<close>.
\<close>

function update_loop ::
  "AircraftParameters \<Rightarrow> FdmConfig \<Rightarrow> ControlInputs \<Rightarrow> real \<Rightarrow> AircraftState \<Rightarrow> AircraftState" where
  "update_loop ps cfg inputs remaining s =
     (if remaining > 0.000001
      then (let dt = min 0.02 remaining
            in update_loop ps cfg inputs (remaining - dt) (substep ps cfg inputs dt s))
      else s)"
  by pat_completeness auto
termination
proof (relation "measure (\<lambda>(ps, cfg, inputs, remaining, s). nat \<lceil>remaining * 50\<rceil>)")
  show "wf (measure (\<lambda>(ps :: AircraftParameters, cfg :: FdmConfig, inputs :: ControlInputs,
                        remaining :: real, s :: AircraftState). nat \<lceil>remaining * 50\<rceil>))"
    by simp
next
  fix ps :: AircraftParameters and cfg :: FdmConfig and inputs :: ControlInputs
  fix remaining :: real and s :: AircraftState and dt :: real
  assume pos: "0.000001 < remaining" and dt: "dt = min 0.02 remaining"
  have "\<lceil>(remaining - dt) * 50\<rceil> < \<lceil>remaining * 50\<rceil>"
  proof (cases "remaining \<le> 0.02")
    case True
    then have "(remaining - dt) * 50 = 0" using dt by simp
    moreover have "0 < \<lceil>remaining * 50\<rceil>" using pos by (simp add: ceiling_less_iff)
    ultimately show ?thesis by simp
  next
    case False
    then have "(remaining - dt) * 50 = remaining * 50 - 1" using dt by simp
    then show ?thesis by simp
  qed
  moreover have "0 < \<lceil>remaining * 50\<rceil>" using pos by (simp add: ceiling_less_iff)
  ultimately show "((ps, cfg, inputs, remaining - dt, substep ps cfg inputs dt s),
                    (ps, cfg, inputs, remaining, s))
                   \<in> measure (\<lambda>(ps, cfg, inputs, remaining, s). nat \<lceil>remaining * 50\<rceil>)"
    by simp
qed

declare update_loop.simps [simp del]

text \<open>
  \<open>update(dtSeconds, inputs)\<close>: the guard, the cap of the requested time at 0.25 s, and
  the substep loop. The model is returned with its state updated, as the source mutates
  \<open>this.state\<close> in place.
\<close>

definition update :: "jsnum \<Rightarrow> ControlInputs \<Rightarrow> FlightDynamicsModel \<Rightarrow> FlightDynamicsModel" where
  "update dtSeconds inputs m =
     (if \<not> isFinite dtSeconds \<or> le_zero dtSeconds then m
      else (case dtSeconds of
              Num d \<Rightarrow> m\<lparr> state := update_loop (params m) (config m) inputs (min d 0.25) (state m) \<rparr>
            | _ \<Rightarrow> m))"

text \<open>A sequence of calls of \<open>update\<close>, each with its own \<open>dtSeconds\<close> and inputs.\<close>

fun updates :: "(jsnum \<times> ControlInputs) list \<Rightarrow> FlightDynamicsModel \<Rightarrow> FlightDynamicsModel" where
  "updates [] m = m"
| "updates (c # cs) m = updates cs (update (fst c) (snd c) m)"

text \<open>
  The set-up of the repository's gravity test: the default aircraft with the default
  configuration, and all four controls at zero.
\<close>

definition defaultModel :: FlightDynamicsModel where
  "defaultModel = FlightDynamicsModel_new defaultParams defaultState DefaultFdmConfig"

definition neutralInputs :: ControlInputs where
  "neutralInputs = \<lparr> elevator = 0, ailerons = 0, rudder = 0, throttle = 0 \<rparr>"

text \<open>
  The set-up of \<open>main.ts\<close>: the default aircraft with \<open>velocityEnuMetersPerSec.x\<close>
  set to 55 and \<open>yawRad\<close> to 90 degrees, then the constructor.
\<close>

definition mainState :: AircraftState where
  "mainState =
     defaultState\<lparr> velocityEnuMetersPerSec := \<lparr> vec_x = 55, vec_y = 0, vec_z = 0 \<rparr>,
                   yawRad := 90 * (pi / 180) \<rparr>"

definition mainModel :: FlightDynamicsModel where
  "mainModel = FlightDynamicsModel_new defaultParams mainState DefaultFdmConfig"

text \<open>
  Two more models, for the speed limit: the default aircraft constructed with an initial
  velocity of 300 m/s along X, above the limit of 250, and with 250 m/s, on the limit.
\<close>

definition fastModel :: FlightDynamicsModel where
  "fastModel =
     FlightDynamicsModel_new defaultParams
       (defaultState\<lparr> velocityEnuMetersPerSec := \<lparr> vec_x = 300, vec_y = 0, vec_z = 0 \<rparr> \<rparr>)
       DefaultFdmConfig"

definition capModel :: FlightDynamicsModel where
  "capModel =
     FlightDynamicsModel_new defaultParams
       (defaultState\<lparr> velocityEnuMetersPerSec := \<lparr> vec_x = 250, vec_y = 0, vec_z = 0 \<rparr> \<rparr>)
       DefaultFdmConfig"

text \<open>
  Invariants of the fall from rest with neutral controls, for the analysis of the gravity
  test. \<open>qid\<close> is the identity quaternion. \<open>fallingAt t s\<close>: after \<open>t\<close> seconds the
  attitude is still level, the velocity has no Y component, has drifted backwards by at
  most \<open>3 t\<close>, and points down with a speed between \<open>8 t\<close> and \<open>9.80665 t\<close>, short of
  free fall by at least \<open>0.0015 (t - 0.5)\<close>. \<open>driftingAt\<close> adds that the drift and the
  shortfall are strict.
\<close>

definition qid :: Quaternion where
  "qid = \<lparr> quat_x = 0, quat_y = 0, quat_z = 0, quat_w = 1 \<rparr>"


definition fallingAt :: "real \<Rightarrow> AircraftState \<Rightarrow> bool" where
  "fallingAt t s \<longleftrightarrow>
     0 \<le> t \<and> orientation s = qid \<and> rollRad s = 0
     \<and> vec_y (velocityEnuMetersPerSec s) = 0
     \<and> - 3 * t \<le> vec_x (velocityEnuMetersPerSec s) \<and> vec_x (velocityEnuMetersPerSec s) \<le> 0
     \<and> - GRAVITY_M_S2 * t \<le> vec_z (velocityEnuMetersPerSec s)
     \<and> vec_z (velocityEnuMetersPerSec s) \<le> - 8 * t
     \<and> 0.0015 * (t - 0.5) \<le> vec_z (velocityEnuMetersPerSec s) + GRAVITY_M_S2 * t"


definition driftingAt :: "real \<Rightarrow> AircraftState \<Rightarrow> bool" where
  "driftingAt t s \<longleftrightarrow>
     fallingAt t s \<and> vec_x (velocityEnuMetersPerSec s) < 0
     \<and> - GRAVITY_M_S2 * t < vec_z (velocityEnuMetersPerSec s)"


text \<open>
  The steps \<open>dt\<close> that the loop takes from a given \<open>remaining\<close>, in order: the same
  recursion as \<open>update_loop\<close>, recording each step instead of running the body.
\<close>

function substepSizes :: "real \<Rightarrow> real list" where
  "substepSizes remaining =
     (if remaining > 0.000001
      then (let dt = min 0.02 remaining in dt # substepSizes (remaining - dt))
      else [])"
  by pat_completeness auto
termination
proof (relation "measure (\<lambda>remaining. nat \<lceil>remaining * 50\<rceil>)")
  show "wf (measure (\<lambda>remaining :: real. nat \<lceil>remaining * 50\<rceil>))"
    by simp
next
  fix remaining :: real and dt :: real
  assume pos: "0.000001 < remaining" and dt: "dt = min 0.02 remaining"
  have "\<lceil>(remaining - dt) * 50\<rceil> < \<lceil>remaining * 50\<rceil>"
  proof (cases "remaining \<le> 0.02")
    case True
    then have "(remaining - dt) * 50 = 0" using dt by simp
    moreover have "0 < \<lceil>remaining * 50\<rceil>" using pos by (simp add: ceiling_less_iff)
    ultimately show ?thesis by simp
  next
    case False
    then have "(remaining - dt) * 50 = remaining * 50 - 1" using dt by simp
    then show ?thesis by simp
  qed
  moreover have "0 < \<lceil>remaining * 50\<rceil>" using pos by (simp add: ceiling_less_iff)
  ultimately show "(remaining - dt, remaining) \<in> measure (\<lambda>remaining. nat \<lceil>remaining * 50\<rceil>)"
    by simp
qed

declare substepSizes.simps [simp del]

section \<open>Lift and drag\<close>

text \<open>
  C7. With a stall angle that is not negative, \<open>calculateLiftCoefficient\<close> is linear in
  the angle of attack with slope \<open>clSlopePerRad\<close> while the angle lies within the stall
  bound, and returns the slope times the upper bound above it and the slope times the
  lower bound below it.
\<close>

theorem calculateLiftCoefficient_linear_then_saturated:
  assumes "0 \<le> stallAlpha"
  shows "(\<bar>alphaRad\<bar> \<le> stallAlpha \<longrightarrow>
            calculateLiftCoefficient alphaRad clSlope stallAlpha = clSlope * alphaRad)
         \<and> (stallAlpha < alphaRad \<longrightarrow>
            calculateLiftCoefficient alphaRad clSlope stallAlpha = clSlope * stallAlpha)
         \<and> (alphaRad < - stallAlpha \<longrightarrow>
            calculateLiftCoefficient alphaRad clSlope stallAlpha = clSlope * (- stallAlpha))"
  using assms by (auto simp: calculateLiftCoefficient_def clamp_def)

theorem calculateLiftCoefficient_linear_then_saturated_witness:
  "(0::real) \<le> 0.25
   \<and> calculateLiftCoefficient 0.1 5.7 0.25 = 5.7 * 0.1
   \<and> calculateLiftCoefficient 0.5 5.7 0.25 = 5.7 * 0.25
   \<and> calculateLiftCoefficient (- 0.5) 5.7 0.25 = 5.7 * (- 0.25)"
proof -
  have h: "(0::real) \<le> 0.25" by simp
  show ?thesis
    using calculateLiftCoefficient_linear_then_saturated [OF h, of "0.1" "5.7"]
      calculateLiftCoefficient_linear_then_saturated [OF h, of "0.5" "5.7"]
      calculateLiftCoefficient_linear_then_saturated [OF h, of "- 0.5" "5.7"]
    by simp
qed

text \<open>
  C8. With the lift coefficient, the air density and the wing area fixed, the lift at
  twice the speed is four times the lift; at speed zero both the lift and the drag are
  exactly zero.
\<close>

theorem lift_quadratic_in_speed_and_zero_at_rest:
  "calculateLiftNewtons cl rho (2 * v) area = 4 * calculateLiftNewtons cl rho v area
   \<and> calculateLiftNewtons cl rho 0 area = 0
   \<and> calculateDragNewtons cd rho 0 area = 0"
  by (simp add: calculateLiftNewtons_def calculateDragNewtons_def)

section \<open>Construction and the guard of update\<close>

text \<open>
  C10. The constructor replaces the orientation of the initial state by the quaternion
  of that state's yaw, pitch and roll: the constructed model does not depend on the
  orientation that was passed in, and every other field of the state is kept. That
  quaternion is the ZYX one: the rotation about Z by the yaw, times the rotation about Y
  by the pitch, times the rotation about X by the roll.
\<close>

theorem constructor_overwrites_orientation:
  "orientation (state (FlightDynamicsModel_new ps s cfg))
     = quaternionFromYawPitchRoll (yawRad s) (pitchRad s) (rollRad s)
   \<and> FlightDynamicsModel_new ps (s\<lparr> orientation := q \<rparr>) cfg = FlightDynamicsModel_new ps s cfg
   \<and> state (FlightDynamicsModel_new ps s cfg)
     = s\<lparr> orientation := quaternionFromYawPitchRoll (yawRad s) (pitchRad s) (rollRad s) \<rparr>
   \<and> quaternionFromYawPitchRoll yaw pitch roll
     = quaternionMultiply
         (quaternionMultiply
            \<lparr> quat_x = 0, quat_y = 0, quat_z = sin (yaw * 0.5), quat_w = cos (yaw * 0.5) \<rparr>
            \<lparr> quat_x = 0, quat_y = sin (pitch * 0.5), quat_z = 0, quat_w = cos (pitch * 0.5) \<rparr>)
         \<lparr> quat_x = sin (roll * 0.5), quat_y = 0, quat_z = 0, quat_w = cos (roll * 0.5) \<rparr>"
  by (simp add: FlightDynamicsModel_new_def quaternionFromYawPitchRoll_def quaternionMultiply_def
      Let_def)

text \<open>
  C9. When \<open>dtSeconds\<close> is NaN, an infinity, zero or negative, \<open>update\<close> returns the
  model as it was, whatever the inputs: no field of the state changes.
\<close>

theorem update_noop_on_bad_dt:
  "\<not> isFinite dtSeconds \<or> le_zero dtSeconds \<Longrightarrow> update dtSeconds inputs m = m"
  by (simp add: update_def)

theorem update_noop_on_bad_dt_witness:
  "update NaN neutralInputs defaultModel = defaultModel
   \<and> update PosInfinity neutralInputs defaultModel = defaultModel
   \<and> update NegInfinity neutralInputs defaultModel = defaultModel
   \<and> update (Num 0) neutralInputs defaultModel = defaultModel
   \<and> update (Num (- 1)) neutralInputs defaultModel = defaultModel"
  using update_noop_on_bad_dt [of NaN neutralInputs defaultModel]
    update_noop_on_bad_dt [of PosInfinity neutralInputs defaultModel]
    update_noop_on_bad_dt [of NegInfinity neutralInputs defaultModel]
    update_noop_on_bad_dt [of "Num 0" neutralInputs defaultModel]
    update_noop_on_bad_dt [of "Num (- 1)" neutralInputs defaultModel]
  by simp

section \<open>The orientation stays a unit quaternion\<close>

lemma unit_after_division:
  fixes a b c d m :: real
  assumes m: "m = sqrt (a * a + b * b + c * c + d * d)" and nz: "m \<noteq> 0"
  shows "a * (1 / m) * (a * (1 / m)) + b * (1 / m) * (b * (1 / m))
         + c * (1 / m) * (c * (1 / m)) + d * (1 / m) * (d * (1 / m)) = 1"
proof -
  have "0 \<le> a * a + b * b + c * c + d * d" by simp
  then have mm: "m * m = a * a + b * b + c * c + d * d"
    unfolding m by simp
  have "a * (1 / m) * (a * (1 / m)) + b * (1 / m) * (b * (1 / m))
         + c * (1 / m) * (c * (1 / m)) + d * (1 / m) * (d * (1 / m))
        = (a * a + b * b + c * c + d * d) / (m * m)"
    by (simp add: add_divide_distrib)
  also have "\<dots> = 1" using nz by (simp add: mm [symmetric])
  finally show ?thesis .
qed

lemma quaternionNormalize_unit: "quaternionMagnitude (quaternionNormalize q) = 1"
proof (cases "quaternionMagnitude q = 0")
  case True
  then show ?thesis by (simp add: quaternionNormalize_def quaternionMagnitude_def)
next
  case False
  have "quaternionMagnitude q = sqrt (quat_x q * quat_x q + quat_y q * quat_y q
          + quat_z q * quat_z q + quat_w q * quat_w q)"
    by (simp add: quaternionMagnitude_def)
  from unit_after_division [OF this False] False show ?thesis
    by (simp add: quaternionNormalize_def Let_def quaternionMagnitude_def [of "\<lparr>quat_x = _, quat_y = _, quat_z = _, quat_w = _\<rparr>"])
qed

lemma quaternionFromYawPitchRoll_unit:
  "quaternionMagnitude (quaternionFromYawPitchRoll yaw pitch roll) = 1"
proof -
  define cy sy cp sp cr sr where "cy = cos (yaw * 0.5)" and "sy = sin (yaw * 0.5)"
    and "cp = cos (pitch * 0.5)" and "sp = sin (pitch * 0.5)"
    and "cr = cos (roll * 0.5)" and "sr = sin (roll * 0.5)"
  have y: "sy * sy + cy * cy = 1" and p: "sp * sp + cp * cp = 1" and r: "sr * sr + cr * cr = 1"
    unfolding cy_def sy_def cp_def sp_def cr_def sr_def
    by (simp_all add: power2_eq_square [symmetric])
  have "(sr * cp * cy - cr * sp * sy) * (sr * cp * cy - cr * sp * sy)
        + (cr * sp * cy + sr * cp * sy) * (cr * sp * cy + sr * cp * sy)
        + (cr * cp * sy - sr * sp * cy) * (cr * cp * sy - sr * sp * cy)
        + (cr * cp * cy + sr * sp * sy) * (cr * cp * cy + sr * sp * sy)
        = (sr * sr + cr * cr) * (sp * sp + cp * cp) * (sy * sy + cy * cy)"
    by (simp add: algebra_simps)
  also have "\<dots> = 1" by (simp add: y p r)
  finally show ?thesis
    unfolding quaternionFromYawPitchRoll_def quaternionMagnitude_def Let_def
      cy_def sy_def cp_def sp_def cr_def sr_def
    by simp
qed

lemma substep_orientation:
  "\<exists>q. orientation (substep ps cfg inputs dt s) = quaternionNormalize q"
  by (auto simp: substep_def attitudeStep_def integrateOrientation_def Let_def)

lemma substep_unit: "quaternionMagnitude (orientation (substep ps cfg inputs dt s)) = 1"
  using substep_orientation [of ps cfg inputs dt s] quaternionNormalize_unit by auto

lemma update_loop_unit:
  "quaternionMagnitude (orientation s) = 1 \<Longrightarrow>
   quaternionMagnitude (orientation (update_loop ps cfg inputs remaining s)) = 1"
proof (induction ps cfg inputs remaining s rule: update_loop.induct)
  case (1 ps cfg inputs remaining s)
  show ?case
  proof (cases "remaining > 0.000001")
    case True
    then show ?thesis
      using "1.IH" [OF True refl] substep_unit
      by (simp add: update_loop.simps [of ps cfg inputs remaining s] Let_def)
  next
    case False
    then show ?thesis using "1.prems" by (simp add: update_loop.simps [of ps cfg inputs remaining s])
  qed
qed

lemma update_unit:
  "quaternionMagnitude (orientation (state m)) = 1 \<Longrightarrow>
   quaternionMagnitude (orientation (state (update dt inputs m))) = 1"
  by (cases dt) (simp_all add: update_def update_loop_unit)

lemma updates_unit:
  "quaternionMagnitude (orientation (state m)) = 1 \<Longrightarrow>
   quaternionMagnitude (orientation (state (updates cs m))) = 1"
  by (induction cs arbitrary: m) (simp_all add: update_unit)

text \<open>
  C1. A model made by the constructor has an orientation of magnitude 1, and after any
  sequence of calls of \<open>update\<close>, with any \<open>dtSeconds\<close> (NaN and the infinities
  included) and any inputs, the magnitude of its orientation is 1 again: the constructor
  builds a unit quaternion and every substep ends in \<open>quaternionNormalize\<close>.
\<close>

theorem orientation_unit_after_updates:
  "quaternionMagnitude (orientation (state (updates cs (FlightDynamicsModel_new ps s0 cfg)))) = 1"
  by (rule updates_unit) (simp add: FlightDynamicsModel_new_def quaternionFromYawPitchRoll_unit)

section \<open>The speed limit\<close>

lemma magnitude_scale: "magnitude (scale v k) = \<bar>k\<bar> * magnitude v"
proof -
  have "vec_x v * k * (vec_x v * k) + vec_y v * k * (vec_y v * k) + vec_z v * k * (vec_z v * k)
        = (k * k) * (vec_x v * vec_x v + vec_y v * vec_y v + vec_z v * vec_z v)"
    by (simp add: algebra_simps)
  then show ?thesis
    by (simp add: magnitude_def scale_def real_sqrt_mult)
qed

lemma scale_scale: "scale (scale v a) b = scale v (a * b)"
  by (simp add: scale_def mult.assoc)

lemma limitSpeed_above:
  assumes "250 < magnitude v"
  shows "limitSpeed v = scale v (250 / magnitude v)" and "magnitude (limitSpeed v) = 250"
proof -
  from assms have big: "0.000001 < magnitude v" by simp
  from assms big show eq: "limitSpeed v = scale v (250 / magnitude v)"
    by (simp add: limitSpeed_def normalize_vec_def Let_def scale_scale)
  from assms show "magnitude (limitSpeed v) = 250"
    by (simp add: eq magnitude_scale)
qed

lemma limitSpeed_below: "magnitude v \<le> 250 \<Longrightarrow> limitSpeed v = v"
  by (simp add: limitSpeed_def Let_def)

lemma limitSpeed_le: "magnitude (limitSpeed v) \<le> 250"
  using limitSpeed_above(2) [of v] limitSpeed_below [of v] by (cases "250 < magnitude v") auto

lemma substep_velocity:
  "velocityEnuMetersPerSec (substep ps cfg inputs dt s)
   = limitSpeed (add (velocityEnuMetersPerSec (attitudeStep cfg inputs dt s))
       (scale (accelerationEnu ps cfg inputs (attitudeStep cfg inputs dt s)) dt))"
  by (simp add: substep_def Let_def)

lemma substep_speed: "magnitude (velocityEnuMetersPerSec (substep ps cfg inputs dt s)) \<le> 250"
  by (simp add: substep_velocity limitSpeed_le)

lemma update_loop_speed:
  "magnitude (velocityEnuMetersPerSec s) \<le> 250 \<Longrightarrow>
   magnitude (velocityEnuMetersPerSec (update_loop ps cfg inputs remaining s)) \<le> 250"
proof (induction ps cfg inputs remaining s rule: update_loop.induct)
  case (1 ps cfg inputs remaining s)
  show ?case
  proof (cases "remaining > 0.000001")
    case True
    then show ?thesis
      using "1.IH" [OF True refl] substep_speed
      by (simp add: update_loop.simps [of ps cfg inputs remaining s] Let_def)
  next
    case False
    then show ?thesis using "1.prems" by (simp add: update_loop.simps [of ps cfg inputs remaining s])
  qed
qed

lemma update_loop_speed_entered:
  "0.000001 < remaining \<Longrightarrow>
   magnitude (velocityEnuMetersPerSec (update_loop ps cfg inputs remaining s)) \<le> 250"
  by (subst update_loop.simps) (simp add: Let_def update_loop_speed substep_speed)

lemma update_speed:
  "magnitude (velocityEnuMetersPerSec (state m)) \<le> 250 \<Longrightarrow>
   magnitude (velocityEnuMetersPerSec (state (update dt inputs m))) \<le> 250"
  by (cases dt) (simp_all add: update_def update_loop_speed)

lemma updates_speed:
  "magnitude (velocityEnuMetersPerSec (state m)) \<le> 250 \<Longrightarrow>
   magnitude (velocityEnuMetersPerSec (state (updates cs m))) \<le> 250"
  by (induction cs arbitrary: m) (simp_all add: update_speed)

text \<open>
  C4 (amended). After a call of \<open>update\<close> that runs at least one substep (a finite
  \<open>dtSeconds\<close> above 0.000001) the speed is at most 250, from every state and for
  every input; and from a state whose speed is at most 250, the speed is at most 250
  after any sequence of calls, since a call that runs no substep leaves the velocity as
  it was. The velocity a substep leaves is the
  integrated velocity passed through the speed limit, which rescales a velocity faster
  than 250 by the positive factor 250 / speed, to magnitude exactly 250, and leaves any
  other velocity as it is.
\<close>

theorem speed_never_exceeds_cap:
  "(magnitude (velocityEnuMetersPerSec (state m)) \<le> 250 \<longrightarrow>
      magnitude (velocityEnuMetersPerSec (state (updates cs m))) \<le> 250)
   \<and> (0.000001 < d \<longrightarrow>
      magnitude (velocityEnuMetersPerSec (state (update (Num d) inputs m))) \<le> 250)
   \<and> velocityEnuMetersPerSec (substep ps cfg inputs dt s)
       = limitSpeed (add (velocityEnuMetersPerSec (attitudeStep cfg inputs dt s))
           (scale (accelerationEnu ps cfg inputs (attitudeStep cfg inputs dt s)) dt))
   \<and> (250 < magnitude v \<longrightarrow>
      limitSpeed v = scale v (250 / magnitude v) \<and> magnitude (limitSpeed v) = 250)
   \<and> (magnitude v \<le> 250 \<longrightarrow> limitSpeed v = v)"
proof (intro conjI impI)
  show "magnitude (velocityEnuMetersPerSec (state (updates cs m))) \<le> 250"
    if "magnitude (velocityEnuMetersPerSec (state m)) \<le> 250"
    using that by (rule updates_speed)
  show "magnitude (velocityEnuMetersPerSec (state (update (Num d) inputs m))) \<le> 250"
    if "0.000001 < d"
    using that by (simp add: update_def update_loop_speed_entered)
  show "velocityEnuMetersPerSec (substep ps cfg inputs dt s)
       = limitSpeed (add (velocityEnuMetersPerSec (attitudeStep cfg inputs dt s))
           (scale (accelerationEnu ps cfg inputs (attitudeStep cfg inputs dt s)) dt))"
    by (rule substep_velocity)
  show "limitSpeed v = scale v (250 / magnitude v)" if "250 < magnitude v"
    using that by (rule limitSpeed_above)
  show "magnitude (limitSpeed v) = 250" if "250 < magnitude v"
    using that by (rule limitSpeed_above)
  show "limitSpeed v = v" if "magnitude v \<le> 250"
    using that by (rule limitSpeed_below)
qed

theorem speed_never_exceeds_cap_witness:
  "magnitude (velocityEnuMetersPerSec (state capModel)) \<le> 250
   \<and> magnitude (velocityEnuMetersPerSec (state
         (updates [(Num 1, neutralInputs\<lparr> throttle := 1 \<rparr>), (NaN, neutralInputs),
                   (Num 0.1, neutralInputs\<lparr> throttle := 1 \<rparr>)] capModel))) \<le> 250
   \<and> (0.000001 :: real) < 1
   \<and> magnitude (velocityEnuMetersPerSec (state
         (update (Num 1) (neutralInputs\<lparr> throttle := 1 \<rparr>) fastModel))) \<le> 250
   \<and> 250 < magnitude \<lparr> vec_x = 300, vec_y = 0, vec_z = 0 \<rparr>
   \<and> limitSpeed \<lparr> vec_x = 300, vec_y = 0, vec_z = 0 \<rparr> = \<lparr> vec_x = 250, vec_y = 0, vec_z = 0 \<rparr>
   \<and> magnitude (limitSpeed \<lparr> vec_x = 300, vec_y = 0, vec_z = 0 \<rparr>) = 250
   \<and> magnitude \<lparr> vec_x = 3, vec_y = 0, vec_z = 0 \<rparr> \<le> 250
   \<and> limitSpeed \<lparr> vec_x = 3, vec_y = 0, vec_z = 0 \<rparr> = \<lparr> vec_x = 3, vec_y = 0, vec_z = 0 \<rparr>"
proof -
  have mcap: "magnitude (velocityEnuMetersPerSec (state capModel)) = 250"
    by (simp add: capModel_def FlightDynamicsModel_new_def defaultState_def magnitude_def)
  have m300: "magnitude \<lparr> vec_x = 300, vec_y = 0, vec_z = 0 \<rparr> = 300"
    by (simp add: magnitude_def)
  have m3: "magnitude \<lparr> vec_x = 3, vec_y = 0, vec_z = 0 \<rparr> = 3"
    by (simp add: magnitude_def)
  have m250: "magnitude \<lparr> vec_x = 250, vec_y = 0, vec_z = 0 \<rparr> = 250"
    by (simp add: magnitude_def)
  show ?thesis
    using speed_never_exceeds_cap [where m = capModel
        and cs = "[(Num 1, neutralInputs\<lparr> throttle := 1 \<rparr>), (NaN, neutralInputs),
                   (Num 0.1, neutralInputs\<lparr> throttle := 1 \<rparr>)]"
        and v = "\<lparr> vec_x = 300, vec_y = 0, vec_z = 0 \<rparr>"]
      speed_never_exceeds_cap [where m = fastModel and d = 1
        and inputs = "neutralInputs\<lparr> throttle := 1 \<rparr>"
        and v = "\<lparr> vec_x = 3, vec_y = 0, vec_z = 0 \<rparr>"]
    by (simp add: mcap m300 m3 m250 scale_def)
qed

text \<open>
  C4, counterexample. A call that runs no substep does not bring the speed down: the
  model constructed at 300 m/s still has speed 300, above 250, after \<open>update(NaN, inputs)\<close>
  and after \<open>update(0.000001, inputs)\<close>.
\<close>

theorem speed_above_cap_survives_update:
  "magnitude (velocityEnuMetersPerSec (state (update NaN neutralInputs fastModel))) = 300
   \<and> \<not> magnitude (velocityEnuMetersPerSec (state (update NaN neutralInputs fastModel))) \<le> 250
   \<and> magnitude (velocityEnuMetersPerSec (state
         (update (Num 0.000001) neutralInputs fastModel))) = 300
   \<and> \<not> magnitude (velocityEnuMetersPerSec (state
         (update (Num 0.000001) neutralInputs fastModel))) \<le> 250"
proof -
  have f: "magnitude (velocityEnuMetersPerSec (state fastModel)) = 300"
    by (simp add: fastModel_def FlightDynamicsModel_new_def defaultState_def magnitude_def)
  have n: "update NaN neutralInputs fastModel = fastModel"
    by (simp add: update_def)
  have l: "update_loop ps cfg inputs remaining s = s" if "remaining \<le> 0.000001"
    for ps cfg inputs remaining s
    using that by (subst update_loop.simps) simp
  have t: "update (Num 0.000001) neutralInputs fastModel = fastModel"
    by (simp add: update_def l)
  show ?thesis unfolding n t by (simp add: f)
qed

section \<open>Time consumed by a call of update\<close>

lemma update_loop_done: "remaining \<le> 0.000001 \<Longrightarrow> update_loop ps cfg inputs remaining s = s"
  by (simp add: update_loop.simps [of ps cfg inputs remaining s])

lemma update_loop_step:
  "0.000001 < remaining \<Longrightarrow>
   update_loop ps cfg inputs remaining s
   = update_loop ps cfg inputs (remaining - min 0.02 remaining)
       (substep ps cfg inputs (min 0.02 remaining) s)"
  by (simp add: update_loop.simps [of ps cfg inputs remaining s] Let_def)

lemma substepSizes_done: "remaining \<le> 0.000001 \<Longrightarrow> substepSizes remaining = []"
  by (simp add: substepSizes.simps [of remaining])

lemma substepSizes_step:
  "0.000001 < remaining \<Longrightarrow>
   substepSizes remaining = min 0.02 remaining # substepSizes (remaining - min 0.02 remaining)"
  by (simp add: substepSizes.simps [of remaining] Let_def)

lemma update_loop_foldl:
  "update_loop ps cfg inputs remaining s
   = foldl (\<lambda>st dt. substep ps cfg inputs dt st) s (substepSizes remaining)"
proof (induction ps cfg inputs remaining s rule: update_loop.induct)
  case (1 ps cfg inputs remaining s)
  show ?case
  proof (cases "remaining > 0.000001")
    case True
    then show ?thesis
      using "1.IH" [OF True refl]
      by (simp add: update_loop_step substepSizes_step)
  next
    case False
    then show ?thesis by (simp add: update_loop_done substepSizes_done)
  qed
qed

lemma substepSizes_bounds:
  "dt \<in> set (substepSizes remaining) \<Longrightarrow> 0 < dt \<and> dt \<le> 0.02"
proof (induction remaining rule: substepSizes.induct)
  case (1 remaining)
  show ?case
  proof (cases "remaining > 0.000001")
    case True
    with "1.prems" have "dt = min 0.02 remaining \<or> dt \<in> set (substepSizes (remaining - min 0.02 remaining))"
      by (simp add: substepSizes_step)
    then show ?thesis
    proof
      assume "dt = min 0.02 remaining"
      with True show ?thesis by simp
    next
      assume "dt \<in> set (substepSizes (remaining - min 0.02 remaining))"
      then show ?thesis using "1.IH" [OF True refl] by simp
    qed
  next
    case False
    with "1.prems" show ?thesis by (simp add: substepSizes_done)
  qed
qed

lemma substepSizes_sum:
  "0 \<le> remaining \<Longrightarrow>
   0 \<le> remaining - sum_list (substepSizes remaining)
   \<and> remaining - sum_list (substepSizes remaining) \<le> 0.000001"
proof (induction remaining rule: substepSizes.induct)
  case (1 remaining)
  show ?case
  proof (cases "remaining > 0.000001")
    case True
    have "0 \<le> remaining - min 0.02 remaining" by simp
    from "1.IH" [OF True refl this] True show ?thesis
      by (simp add: substepSizes_step)
  next
    case False
    with "1.prems" show ?thesis by (simp add: substepSizes_done)
  qed
qed


text \<open>
  C3 (amended). For every finite \<open>dtSeconds > 0\<close>, \<open>update\<close> runs the loop body once
  for each step of \<open>substepSizes (min dtSeconds 0.25)\<close>, in order; every step is
  positive and at most 0.02; and the steps add up to \<open>min dtSeconds 0.25\<close> less a
  residue that is at least 0 and at most 0.000001.
\<close>

theorem update_consumes_capped_time_in_substeps:
  assumes "0 < d"
  shows "update (Num d) inputs m
         = m\<lparr> state := foldl (\<lambda>st dt. substep (params m) (config m) inputs dt st) (state m)
                          (substepSizes (min d 0.25)) \<rparr>
         \<and> (\<forall>dt \<in> set (substepSizes (min d 0.25)). 0 < dt \<and> dt \<le> 0.02)
         \<and> 0 \<le> min d 0.25 - sum_list (substepSizes (min d 0.25))
         \<and> min d 0.25 - sum_list (substepSizes (min d 0.25)) \<le> 0.000001"
proof (intro conjI ballI)
  show "update (Num d) inputs m
         = m\<lparr> state := foldl (\<lambda>st dt. substep (params m) (config m) inputs dt st) (state m)
                          (substepSizes (min d 0.25)) \<rparr>"
    using assms by (simp add: update_def update_loop_foldl)
  have "0 \<le> min d 0.25" using assms by simp
  from substepSizes_sum [OF this]
  show "0 \<le> min d 0.25 - sum_list (substepSizes (min d 0.25))"
    and "min d 0.25 - sum_list (substepSizes (min d 0.25)) \<le> 0.000001"
    by simp_all
next
  fix dt assume "dt \<in> set (substepSizes (min d 0.25))"
  then show "0 < dt" "dt \<le> 0.02" using substepSizes_bounds by blast+
qed


theorem update_consumes_capped_time_in_substeps_witness:
  "(0::real) < 0.05
   \<and> update (Num 0.05) neutralInputs defaultModel
       = defaultModel\<lparr> state :=
           substep (params defaultModel) (config defaultModel) neutralInputs 0.01
             (substep (params defaultModel) (config defaultModel) neutralInputs 0.02
               (substep (params defaultModel) (config defaultModel) neutralInputs 0.02
                 (state defaultModel))) \<rparr>
   \<and> substepSizes (min 0.05 0.25) = [0.02, 0.02, 0.01]
   \<and> min 0.05 0.25 - sum_list (substepSizes (min 0.05 0.25)) = (0::real)"
proof -
  have h: "(0::real) < 0.05" by simp
  have sz: "substepSizes (min 0.05 0.25) = [0.02, 0.02, 0.01]"
    by (simp add: substepSizes_step substepSizes_done)
  note t = update_consumes_capped_time_in_substeps [OF h, of neutralInputs defaultModel, unfolded sz]
  show ?thesis
    unfolding sz using t by simp
qed

text \<open>
  C3, counterexample. The residue can be exactly 0.000001, not smaller: a call with \<open>dtSeconds = 0.000001\<close>
  runs no substep, so it consumes no time and changes nothing.
\<close>

theorem update_residue_not_below_bound:
  "(0::real) < 0.000001
   \<and> substepSizes (min 0.000001 0.25) = []
   \<and> update (Num 0.000001) neutralInputs defaultModel = defaultModel
   \<and> \<not> (min 0.000001 0.25 - sum_list (substepSizes (min 0.000001 0.25)) < (0.000001::real))"
  by (simp add: substepSizes_done update_def update_loop_done)

section \<open>Control inputs\<close>

lemma bodyForce_throttle:
  "bodyForce ps cfg (inputs\<lparr> throttle := clamp (throttle inputs) 0 1 \<rparr>) vBody = bodyForce ps cfg inputs vBody"
  by (simp add: bodyForce_def clamp_def)

lemma substep_throttle:
  "substep ps cfg (inputs\<lparr> throttle := clamp (throttle inputs) 0 1 \<rparr>) dt s = substep ps cfg inputs dt s"
  by (simp add: substep_def attitudeStep_def accelerationEnu_def bodyForce_throttle)

lemma update_loop_throttle:
  "update_loop ps cfg (inputs\<lparr> throttle := clamp (throttle inputs) 0 1 \<rparr>) remaining s
   = update_loop ps cfg inputs remaining s"
  by (simp add: update_loop_foldl substep_throttle)

lemma update_throttle: 
  "update dt (inputs\<lparr> throttle := clamp (throttle inputs) 0 1 \<rparr>) m = update dt inputs m"
  by (cases dt) (simp_all add: update_def update_loop_throttle)

lemma substep_rates:
  "angularRatesRadPerSec (substep ps cfg inputs dt s)
   = (let speedFactor = clamp (magnitude (velocityEnuMetersPerSec s) / 50) 0 1
      in \<lparr> rate_p = ailerons inputs * maxRollRateRadPerSec cfg * rollRateGain cfg * speedFactor,
           rate_q = elevator inputs * maxPitchRateRadPerSec cfg * pitchRateGain cfg * speedFactor,
           rate_r = rudder inputs * maxYawRateRadPerSec cfg * yawRateGain cfg * speedFactor
                    + - sin (rollRad s) * maxYawRateRadPerSec cfg * coordinationGain cfg
                        * speedFactor * 0.2 \<rparr>)"
  by (simp add: substep_def attitudeStep_def Let_def)

lemma update_single_substep:
  "0.000001 < d \<Longrightarrow> d \<le> 0.02 \<Longrightarrow>
   update (Num d) inputs m = m\<lparr> state := substep (params m) (config m) inputs d (state m) \<rparr>"
  by (simp add: update_def update_loop_step update_loop_done)


text \<open>
  The throttle is clamped to [0, 1] before use: a call of \<open>update\<close> with any throttle
  gives exactly the model that the call with the clamped throttle gives. The elevator,
  the ailerons and the rudder enter the commanded body rates as supplied.
\<close>

lemma update_clamps_throttle_only:
  "update dtSeconds (inputs\<lparr> throttle := clamp (throttle inputs) 0 1 \<rparr>) m
     = update dtSeconds inputs m
   \<and> angularRatesRadPerSec (substep ps cfg inputs dt s)
     = (let speedFactor = clamp (magnitude (velocityEnuMetersPerSec s) / 50) 0 1
        in \<lparr> rate_p = ailerons inputs * maxRollRateRadPerSec cfg * rollRateGain cfg * speedFactor,
             rate_q = elevator inputs * maxPitchRateRadPerSec cfg * pitchRateGain cfg * speedFactor,
             rate_r = rudder inputs * maxYawRateRadPerSec cfg * yawRateGain cfg * speedFactor
                      + - sin (rollRad s) * maxYawRateRadPerSec cfg * coordinationGain cfg
                          * speedFactor * 0.2 \<rparr>)"
  using update_throttle substep_rates by simp

text \<open>
  C5. The code on out-of-range ailerons: from the set-up of \<open>main.ts\<close>, the call
  \<open>update(0.02, inputs)\<close> with ailerons 2 commands the roll rate \<open>2 * (pi * 0.6)\<close>, which
  is above \<open>maxRollRateRadPerSec = pi\<close>, while the same call with the ailerons clamped
  to 1 commands \<open>pi * 0.6\<close>. The value is not clamped before use, and the two calls
  leave different models.
\<close>

theorem update_does_not_clamp_ailerons:
  "rate_p (angularRatesRadPerSec (state
      (updates [(Num 0.02, neutralInputs\<lparr> ailerons := 2 \<rparr>)] mainModel))) = 2 * (pi * 0.6)
   \<and> maxRollRateRadPerSec (config mainModel) < 2 * (pi * 0.6)
   \<and> rate_p (angularRatesRadPerSec (state
      (updates [(Num 0.02, neutralInputs\<lparr> ailerons := clamp 2 (- 1) 1 \<rparr>)] mainModel))) = pi * 0.6
   \<and> updates [(Num 0.02, neutralInputs\<lparr> ailerons := 2 \<rparr>)] mainModel
       \<noteq> updates [(Num 0.02, neutralInputs\<lparr> ailerons := clamp 2 (- 1) 1 \<rparr>)] mainModel"
proof -
  have sp: "magnitude (velocityEnuMetersPerSec (state mainModel)) = 55"
    by (simp add: mainModel_def mainState_def FlightDynamicsModel_new_def defaultState_def
        magnitude_def)
  have cfg: "config mainModel = DefaultFdmConfig"
    by (simp add: mainModel_def FlightDynamicsModel_new_def)
  have p2: "rate_p (angularRatesRadPerSec (state
      (updates [(Num 0.02, neutralInputs\<lparr> ailerons := 2 \<rparr>)] mainModel))) = 2 * (pi * 0.6)"
    by (simp add: update_single_substep substep_rates sp cfg DefaultFdmConfig_def clamp_def
        neutralInputs_def)
  have p1: "rate_p (angularRatesRadPerSec (state
      (updates [(Num 0.02, neutralInputs\<lparr> ailerons := clamp 2 (- 1) 1 \<rparr>)] mainModel))) = pi * 0.6"
    by (simp add: update_single_substep substep_rates sp cfg DefaultFdmConfig_def clamp_def
        neutralInputs_def)
  have mx: "maxRollRateRadPerSec (config mainModel) < 2 * (pi * 0.6)"
    using pi_gt_zero by (simp add: cfg DefaultFdmConfig_def)
  have "2 * (pi * 0.6) \<noteq> pi * 0.6" by simp
  with p1 p2 mx show ?thesis by metis
qed

section \<open>The fall from rest\<close>

lemma quaternionNormalize_qid: "quaternionNormalize qid = qid"
  by (simp add: quaternionNormalize_def quaternionMagnitude_def qid_def)

lemma integrateOrientation_qid_rest: "integrateOrientation qid 0 0 0 dt = qid"
  using quaternionNormalize_qid
  by (simp add: integrateOrientation_def quaternionMultiply_def qid_def)

lemma matrixFromQuaternion_qid: "matrixFromQuaternion qid = [1, 0, 0, 0, 1, 0, 0, 0, 1]"
  by (simp add: matrixFromQuaternion_def qid_def)

lemma yawPitchRollFromQuaternion_qid: "yawPitchRollFromQuaternion qid = (0, 0, 0)"
  by (simp add: yawPitchRollFromQuaternion_def matrixFromQuaternion_qid atan2_def Let_def)

lemma pi_half_bounds: "1 / 1000 < pi / 2" "1 / 1000 - pi / 2 < 0"
  using pi_ge_two by simp_all

lemma attitudeStep_level:
  assumes "orientation s = qid" and "rollRad s = 0"
  shows "attitudeStep cfg neutralInputs dt s
         = s\<lparr> angularRatesRadPerSec := \<lparr> rate_p = 0, rate_q = 0, rate_r = 0 \<rparr>,
               orientation := qid, yawRad := 0, pitchRad := 0, rollRad := 0 \<rparr>"
  using assms pi_half_bounds
  by (simp add: attitudeStep_def neutralInputs_def integrateOrientation_qid_rest
      yawPitchRollFromQuaternion_qid clamp_def Let_def)

lemma multiply_identity:
  "multiplyMatrixVector3 [1, 0, 0, 0, 1, 0, 0, 0, 1] v = v"
  by (simp add: multiplyMatrixVector3_def)

lemma accelerationEnu_level:
  assumes "orientation s = qid"
  shows "accelerationEnu ps cfg inputs s
         = scale (add (bodyForce ps cfg inputs (velocityEnuMetersPerSec s))
                    \<lparr> vec_x = 0, vec_y = 0, vec_z = - massKg ps * GRAVITY_M_S2 \<rparr>)
             (1 / massKg ps)"
  using assms
  by (simp add: accelerationEnu_def matrixFromQuaternion_qid transpose3_def multiply_identity Let_def)


lemma magnitude_down: "magnitude \<lparr> vec_x = 0, vec_y = 0, vec_z = vz \<rparr> = \<bar>vz\<bar>"
  by (simp add: magnitude_def)

lemma normalize_down:
  "vz \<le> - 0.001 \<Longrightarrow>
   normalize_vec \<lparr> vec_x = 0, vec_y = 0, vec_z = vz \<rparr> = \<lparr> vec_x = 0, vec_y = 0, vec_z = - 1 \<rparr>"
  by (simp add: normalize_vec_def magnitude_down scale_def Let_def)

lemma liftDir_down:
  "normalize_vec (cross \<lparr> vec_x = 0, vec_y = 0, vec_z = - 1 \<rparr> \<lparr> vec_x = 0, vec_y = 1, vec_z = 0 \<rparr>)
   = \<lparr> vec_x = 1, vec_y = 0, vec_z = 0 \<rparr>"
  by (simp add: cross_def normalize_vec_def magnitude_def scale_def)

lemma liftDir_forward:
  "normalize_vec (cross \<lparr> vec_x = 1, vec_y = 0, vec_z = 0 \<rparr> \<lparr> vec_x = 0, vec_y = 1, vec_z = 0 \<rparr>)
   = \<lparr> vec_x = 0, vec_y = 0, vec_z = 1 \<rparr>"
  by (simp add: cross_def normalize_vec_def magnitude_def scale_def)

lemma atan2_zero_pos: "0 < x \<Longrightarrow> atan2 0 x = 0"
  by (simp add: atan2_def)

lemma atan2_neg_pos: "y < 0 \<Longrightarrow> 0 < x \<Longrightarrow> atan2 y x < 0"
  by (simp add: atan2_def arctan_less_zero_iff divide_neg_pos)

lemma cl_sign:
  assumes "0 < st" and "0 < k"
  shows "a < 0 \<Longrightarrow> calculateLiftCoefficient a k st < 0"
    and "a \<le> 0 \<Longrightarrow> calculateLiftCoefficient a k st \<le> 0"
    and "calculateLiftCoefficient 0 k st = 0"
proof -
  show "calculateLiftCoefficient a k st < 0" if "a < 0"
    using assms that by (simp add: calculateLiftCoefficient_def clamp_def mult_pos_neg)
  show "calculateLiftCoefficient a k st \<le> 0" if "a \<le> 0"
    using assms that by (simp add: calculateLiftCoefficient_def clamp_def mult_le_0_iff)
  show "calculateLiftCoefficient 0 k st = 0"
    using assms by (simp add: calculateLiftCoefficient_def clamp_def)
qed

lemma cl_abs:
  assumes "0 \<le> st" and "0 \<le> k"
  shows "\<bar>calculateLiftCoefficient a k st\<bar> \<le> k * st"
proof -
  have "\<bar>clamp a (- st) st\<bar> \<le> st" using assms by (auto simp: clamp_def)
  then have "k * \<bar>clamp a (- st) st\<bar> \<le> k * st" using assms by (intro mult_left_mono)
  then show ?thesis using assms by (simp add: calculateLiftCoefficient_def abs_mult)
qed

lemma cd_lower:
  assumes "0 \<le> ar * e"
  shows "cd0 \<le> calculateDragCoefficient cd0 cl ar e"
proof -
  have "0 \<le> 1 / (pi * ar * e)" using assms pi_gt_zero by (simp add: mult.assoc)
  moreover have "0 \<le> cl * cl" by simp
  ultimately have "0 \<le> 1 / (pi * ar * e) * (cl * cl)" by (rule mult_nonneg_nonneg)
  then show ?thesis by (simp add: calculateDragCoefficient_def mult.assoc)
qed

lemma cd_upper:
  assumes "5 \<le> ar * e" and "\<bar>cl\<bar> \<le> 2"
  shows "calculateDragCoefficient cd0 cl ar e \<le> cd0 + 2 / 5"
proof -
  define k where "k = 1 / (pi * ar * e)"
  have "2 * 5 \<le> pi * (ar * e)" using assms(1) pi_ge_two by (intro mult_mono) simp_all
  then have big: "10 \<le> pi * ar * e" by (simp add: mult.assoc)
  then have k1: "k \<le> 1 / 10" and k0: "0 \<le> k" unfolding k_def by (simp_all add: field_simps)
  have "cl * cl = \<bar>cl\<bar> * \<bar>cl\<bar>" by simp
  also have "\<dots> \<le> 2 * 2" using assms(2) by (intro mult_mono) simp_all
  finally have c4: "cl * cl \<le> 4" by simp
  have "k * (cl * cl) \<le> (1 / 10) * 4" using k1 c4 k0 by (intro mult_mono) simp_all
  then show ?thesis by (simp add: calculateDragCoefficient_def k_def mult.assoc)
qed


lemma bodyForce_falling_eq:
  assumes "vx \<le> 0" and "vz \<le> 0"
  shows "bodyForce ps cfg inputs \<lparr> vec_x = vx, vec_y = 0, vec_z = vz \<rparr>
         = (let cl = calculateLiftCoefficient (if - vz < 0.1 then 0 else atan2 vz 0.001)
                       (clSlopePerRad ps) (stallAlphaRad cfg);
                cd = calculateDragCoefficient (parasiteDragCoefficient ps) cl
                       ((wingSpanM ps * wingSpanM ps) / wingAreaM2 ps) (oswaldEfficiency ps);
                liftN = calculateLiftNewtons cl AIR_DENSITY_KG_M3 (- vz) (wingAreaM2 ps);
                dragN = calculateDragNewtons cd AIR_DENSITY_KG_M3 (- vz) (wingAreaM2 ps);
                dragDirBody = (if magnitude \<lparr> vec_x = vx, vec_y = 0, vec_z = vz \<rparr> < 0.001
                               then \<lparr> vec_x = - 1, vec_y = 0, vec_z = 0 \<rparr>
                               else normalize_vec \<lparr> vec_x = - vx, vec_y = 0, vec_z = - vz \<rparr>)
            in add (add \<lparr> vec_x = maxThrustN ps * clamp (throttle inputs) 0 1, vec_y = 0, vec_z = 0 \<rparr>
                      (scale (if - vz < 0.001 then \<lparr> vec_x = 0, vec_y = 0, vec_z = 1 \<rparr>
                              else \<lparr> vec_x = 1, vec_y = 0, vec_z = 0 \<rparr>) liftN))
                 (scale dragDirBody dragN))"
proof -
  have mx: "max 0 vx = 0" using assms by simp
  have ma: "magnitude \<lparr> vec_x = 0, vec_y = 0, vec_z = vz \<rparr> = - vz"
    using assms by (simp add: magnitude_down)
  have beta: "atan2 0 (sqrt (c + vz * vz)) = 0" if "0 < c" for c
    by (rule atan2_zero_pos) (use that in \<open>simp add: add_pos_nonneg\<close>)
  have nd: "\<not> - vz < 0.001 \<Longrightarrow> normalize_vec \<lparr> vec_x = 0, vec_y = 0, vec_z = vz \<rparr>
              = \<lparr> vec_x = 0, vec_y = 0, vec_z = - 1 \<rparr>"
    by (rule normalize_down) simp
  show ?thesis
    unfolding bodyForce_def Let_def
    apply (simp only: Vector3.simps mx ma)
    apply (cases "- vz < 0.001")
     apply (simp_all add: liftDir_forward liftDir_down nd beta add_def scale_def)
    done
qed


lemma magnitude_ge_z: "\<bar>vec_z v\<bar> \<le> magnitude v"
proof -
  have "vec_z v * vec_z v \<le> vec_x v * vec_x v + vec_y v * vec_y v + vec_z v * vec_z v" by simp
  then have "sqrt (vec_z v * vec_z v) \<le> magnitude v"
    unfolding magnitude_def by (rule real_sqrt_le_mono)
  then show ?thesis by simp
qed

lemma bodyForce_falling_bounds:
  assumes "vx \<le> 0" and "vz \<le> 0"
  shows "\<exists>L e. bodyForce defaultParams DefaultFdmConfig neutralInputs
                 \<lparr> vec_x = vx, vec_y = 0, vec_z = vz \<rparr>
               = \<lparr> vec_x = L + e * (- vx), vec_y = 0, vec_z = e * (- vz) \<rparr>
           \<and> L \<le> 0 \<and> - 30 * (vz * vz) \<le> L \<and> (vz \<le> - 0.1 \<longrightarrow> L < 0)
           \<and> 0 \<le> e \<and> e \<le> 10 * (- vz) \<and> (vz \<le> - 0.1 \<longrightarrow> 0 < e)
           \<and> (0.001 \<le> magnitude \<lparr> vec_x = vx, vec_y = 0, vec_z = vz \<rparr> \<longrightarrow>
                0.29 * (vz * vz) \<le> e * magnitude \<lparr> vec_x = vx, vec_y = 0, vec_z = vz \<rparr>)"
proof -
  define v where "v = \<lparr> vec_x = vx, vec_y = 0, vec_z = vz \<rparr>"
  define M where "M = magnitude v"
  define alpha where "alpha = (if - vz < 0.1 then 0 else atan2 vz 0.001)"
  define cl where "cl = calculateLiftCoefficient alpha 5.7 (15 * (pi / 180))"
  define cd where "cd = calculateDragCoefficient 0.03 cl (11 * 11 / 16.2) 0.8"
  define liftN where "liftN = calculateLiftNewtons cl 1.225 (- vz) 16.2"
  define dragN where "dragN = calculateDragNewtons cd 1.225 (- vz) 16.2"
  have st: "0 < 15 * (pi / 180)" "15 * (pi / 180) \<le> 1 / 3"
    using pi_gt_zero pi_less_4 by simp_all
  have alpha_neg: "alpha < 0" if "vz \<le> - 0.1"
  proof -
    from that have "vz < 0" by simp
    then have "atan2 vz 0.001 < 0" by (rule atan2_neg_pos) simp
    then show ?thesis using that by (simp add: alpha_def)
  qed
  have alpha0: "alpha \<le> 0"
  proof (cases "- vz < 0.1")
    case True
    then show ?thesis by (simp add: alpha_def)
  next
    case False
    then have "vz \<le> - 0.1" by simp
    from alpha_neg [OF this] show ?thesis by simp
  qed
  have alpha_small: "alpha = 0" if "- vz < 0.1" using that by (simp add: alpha_def)
  have cl0: "cl \<le> 0" unfolding cl_def using st(1) alpha0 by (intro cl_sign(2)) simp_all
  have cl_neg: "cl < 0" if "vz \<le> - 0.1"
    unfolding cl_def using st(1) alpha_neg [OF that] by (intro cl_sign(1)) simp_all
  have cl_small: "cl = 0" if "- vz < 0.1"
    unfolding cl_def alpha_small [OF that] using st(1) by (intro cl_sign(3)) simp_all
  have "\<bar>cl\<bar> \<le> 5.7 * (15 * (pi / 180))" unfolding cl_def using st(1) by (intro cl_abs) simp_all
  also have "\<dots> \<le> 5.7 * (1 / 3)" using st(2) by (intro mult_left_mono) simp_all
  finally have cl2: "\<bar>cl\<bar> \<le> 1.9" by simp
  have cd_lo: "0.03 \<le> cd" unfolding cd_def by (intro cd_lower) simp
  have "cd \<le> 0.03 + 2 / 5" unfolding cd_def using cl2 by (intro cd_upper) simp_all
  then have cd_hi: "cd \<le> 0.43" by simp
  define Y where "Y = vz * vz"
  define X where "X = cl * Y"
  define Z where "Z = cd * Y"
  have sq: "0 \<le> Y" by (simp add: Y_def)
  have Ypos: "0 < Y" if "vz \<le> - 0.1" using that by (simp add: Y_def zero_less_mult_iff)
  have liftN_eq: "liftN = (0.5 * 1.225 * 16.2) * X"
    by (simp add: liftN_def calculateLiftNewtons_def Y_def X_def)
  have dragN_eq: "dragN = (0.5 * 1.225 * 16.2) * Z"
    by (simp add: dragN_def calculateDragNewtons_def Y_def Z_def)
  have X0: "X \<le> 0" unfolding X_def using cl0 sq by (rule mult_nonpos_nonneg)
  have "- cl \<le> 1.9" using cl2 by simp
  then have "(- cl) * Y \<le> 1.9 * Y" using sq by (rule mult_right_mono)
  then have X_lo: "- 1.9 * Y \<le> X" by (simp add: X_def)
  have X_neg: "X < 0" if "vz \<le> - 0.1"
    unfolding X_def using cl_neg [OF that] Ypos [OF that] by (rule mult_neg_pos)
  have X_small: "X = 0" if "- vz < 0.1" unfolding X_def cl_small [OF that] by simp
  have Z_lo: "0.03 * Y \<le> Z" unfolding Z_def using cd_lo sq by (rule mult_right_mono)
  have Z_hi: "Z \<le> 0.43 * Y" unfolding Z_def using cd_hi sq by (rule mult_right_mono)
  have l0: "liftN \<le> 0" unfolding liftN_eq using X0 by simp
  have l_lo: "- 20 * Y \<le> liftN" unfolding liftN_eq using X_lo sq by simp
  have l_neg: "liftN < 0" if "vz \<le> - 0.1" unfolding liftN_eq using X_neg [OF that] by simp
  have l_small: "liftN = 0" if "- vz < 0.1" unfolding liftN_eq X_small [OF that] by simp
  have d_lo: "0.29 * Y \<le> dragN" unfolding dragN_eq using Z_lo sq by simp
  have d_hi: "dragN \<le> 5 * Y" unfolding dragN_eq using Z_hi sq by simp
  have d0: "0 \<le> dragN" using d_lo sq by simp
  have bf: "bodyForce defaultParams DefaultFdmConfig neutralInputs v
            = add (add \<lparr> vec_x = 0, vec_y = 0, vec_z = 0 \<rparr>
                     (scale (if - vz < 0.001 then \<lparr> vec_x = 0, vec_y = 0, vec_z = 1 \<rparr>
                             else \<lparr> vec_x = 1, vec_y = 0, vec_z = 0 \<rparr>) liftN))
                (scale (if M < 0.001 then \<lparr> vec_x = - 1, vec_y = 0, vec_z = 0 \<rparr>
                        else normalize_vec \<lparr> vec_x = - vx, vec_y = 0, vec_z = - vz \<rparr>) dragN)"
    unfolding v_def M_def liftN_def dragN_def cd_def cl_def alpha_def
    using bodyForce_falling_eq [OF assms, of defaultParams DefaultFdmConfig neutralInputs]
    by (simp add: Let_def defaultParams_def DefaultFdmConfig_def neutralInputs_def
        AIR_DENSITY_KG_M3_def clamp_def)
  have lift_vec: "scale (if - vz < 0.001 then \<lparr> vec_x = 0, vec_y = 0, vec_z = 1 \<rparr>
                         else \<lparr> vec_x = 1, vec_y = 0, vec_z = 0 \<rparr>) liftN
                  = \<lparr> vec_x = liftN, vec_y = 0, vec_z = 0 \<rparr>"
    using l_small by (auto simp: scale_def)
  have vzM: "- vz \<le> M" using magnitude_ge_z [of v] assms by (simp add: M_def v_def)
  let ?v = "\<lparr> vec_x = vx, vec_y = 0, vec_z = vz \<rparr>"
  show ?thesis
  proof (cases "M < 0.001")
    case True
    then have small: "- vz < 0.1" using vzM by simp
    have eq: "bodyForce defaultParams DefaultFdmConfig neutralInputs ?v
              = \<lparr> vec_x = (liftN - dragN) + 0 * (- vx), vec_y = 0, vec_z = 0 * (- vz) \<rparr>"
      using True l_small [OF small] by (simp add: bf [unfolded v_def] add_def scale_def)
    have "- 30 * Y \<le> liftN - dragN" using l_lo d_hi sq by simp
    then have c1: "- 30 * (vz * vz) \<le> liftN - dragN" unfolding Y_def .
    have c2: "liftN - dragN \<le> 0" using l0 d0 by simp
    have c3: "vz \<le> - 0.1 \<longrightarrow> liftN - dragN < 0" using small by simp
    have c4: "(0::real) \<le> 0" by simp
    have c5: "(0::real) \<le> 10 * (- vz)" using assms by simp
    have c6: "vz \<le> - 0.1 \<longrightarrow> (0::real) < 0" using small by simp
    have c7: "0.001 \<le> magnitude ?v \<longrightarrow> 0.29 * (vz * vz) \<le> 0 * magnitude ?v"
      using True by (simp add: M_def v_def)
    from eq c1 c2 c3 c4 c5 c6 c7 show ?thesis by blast
  next
    case False
    then have Mpos: "0 < M" and Mbig: "0.000001 < M" by simp_all
    have mneg: "magnitude \<lparr> vec_x = - vx, vec_y = 0, vec_z = - vz \<rparr> = M"
      by (simp add: M_def v_def magnitude_def)
    have eq: "bodyForce defaultParams DefaultFdmConfig neutralInputs ?v
              = \<lparr> vec_x = liftN + (dragN / M) * (- vx), vec_y = 0, vec_z = (dragN / M) * (- vz) \<rparr>"
      unfolding bf [unfolded v_def] lift_vec using False Mbig
      by (simp add: add_def scale_def normalize_vec_def mneg Let_def)
    have e0: "0 \<le> dragN / M" using d0 Mpos by simp
    have "(- vz) * (- vz) \<le> (- vz) * M" using vzM assms by (intro mult_left_mono) simp_all
    then have "Y \<le> (- vz) * M" by (simp add: Y_def)
    then have "dragN \<le> 5 * ((- vz) * M)" using d_hi by simp
    also have "\<dots> \<le> 10 * ((- vz) * M)" using assms Mpos by (simp add: mult_le_0_iff)
    finally have e_hi: "dragN / M \<le> 10 * (- vz)" using Mpos by (simp add: field_simps)
    have e_pos: "vz \<le> - 0.1 \<longrightarrow> 0 < dragN / M"
    proof
      assume "vz \<le> - 0.1"
      then have "0 < dragN" using d_lo Ypos by fastforce
      then show "0 < dragN / M" using Mpos by simp
    qed
    have "- 30 * Y \<le> liftN" using l_lo sq by simp
    then have c1: "- 30 * (vz * vz) \<le> liftN" unfolding Y_def .
    have c3: "vz \<le> - 0.1 \<longrightarrow> liftN < 0" using l_neg by simp
    have "dragN / M * M = dragN" using Mpos by simp
    then have "0.29 * Y \<le> dragN / M * M" using d_lo by simp
    have Mv: "magnitude ?v = M" by (simp add: M_def v_def)
    have c7: "0.001 \<le> magnitude ?v \<longrightarrow> 0.29 * (vz * vz) \<le> dragN / M * magnitude ?v"
      unfolding Mv Y_def [symmetric] using \<open>0.29 * Y \<le> dragN / M * M\<close> by blast
    from eq c1 l0 c3 e0 e_hi e_pos c7 show ?thesis by blast
  qed
qed

lemma magnitude_le_sum: "magnitude v \<le> \<bar>vec_x v\<bar> + \<bar>vec_y v\<bar> + \<bar>vec_z v\<bar>"
proof -
  have "vec_x v * vec_x v + vec_y v * vec_y v + vec_z v * vec_z v
        \<le> (\<bar>vec_x v\<bar> + \<bar>vec_y v\<bar> + \<bar>vec_z v\<bar>)\<^sup>2"
  proof -
    have "0 \<le> \<bar>vec_x v\<bar> * \<bar>vec_y v\<bar>" "0 \<le> \<bar>vec_x v\<bar> * \<bar>vec_z v\<bar>" "0 \<le> \<bar>vec_y v\<bar> * \<bar>vec_z v\<bar>"
      by simp_all
    moreover have "(\<bar>vec_x v\<bar> + \<bar>vec_y v\<bar> + \<bar>vec_z v\<bar>)\<^sup>2
        = vec_x v * vec_x v + vec_y v * vec_y v + vec_z v * vec_z v
          + 2 * (\<bar>vec_x v\<bar> * \<bar>vec_y v\<bar>) + 2 * (\<bar>vec_x v\<bar> * \<bar>vec_z v\<bar>) + 2 * (\<bar>vec_y v\<bar> * \<bar>vec_z v\<bar>)"
      by (simp add: power2_eq_square algebra_simps)
    ultimately show ?thesis by linarith
  qed
  then have "magnitude v \<le> sqrt ((\<bar>vec_x v\<bar> + \<bar>vec_y v\<bar> + \<bar>vec_z v\<bar>)\<^sup>2)"
    unfolding magnitude_def by (rule real_sqrt_le_mono)
  then show ?thesis by simp
qed

lemma substep_falling:
  assumes inv: "fallingAt t s" and dt: "0 < dt" "dt \<le> 0.02" and t1: "t + dt \<le> 1"
  defines "s' \<equiv> substep defaultParams DefaultFdmConfig neutralInputs dt s"
  shows "fallingAt (t + dt) s'"
    and "vec_z (velocityEnuMetersPerSec s') \<le> - GRAVITY_M_S2 * dt"
    and "vec_x (velocityEnuMetersPerSec s) < 0 \<or> vec_z (velocityEnuMetersPerSec s) \<le> - 0.1
         \<Longrightarrow> vec_x (velocityEnuMetersPerSec s') < 0"
    and "- GRAVITY_M_S2 * t < vec_z (velocityEnuMetersPerSec s) \<or> vec_z (velocityEnuMetersPerSec s) \<le> - 0.1
         \<Longrightarrow> - GRAVITY_M_S2 * (t + dt) < vec_z (velocityEnuMetersPerSec s')"
proof -
  define vx where "vx = vec_x (velocityEnuMetersPerSec s)"
  define vz where "vz = vec_z (velocityEnuMetersPerSec s)"
  have t0: "0 \<le> t" and q: "orientation s = qid" and roll: "rollRad s = 0"
    and vy: "vec_y (velocityEnuMetersPerSec s) = 0"
    and vx_lo: "- 3 * t \<le> vx" and vx0: "vx \<le> 0"
    and vz_lo: "- 9.80665 * t \<le> vz" and vz8: "vz \<le> - 8 * t"
    and defi: "0.0015 * (t - 0.5) \<le> vz + 9.80665 * t"
    using inv by (simp_all add: fallingAt_def vx_def vz_def GRAVITY_M_S2_def)
  have vz0: "vz \<le> 0" using vz8 t0 by simp
  have v: "velocityEnuMetersPerSec s = \<lparr> vec_x = vx, vec_y = 0, vec_z = vz \<rparr>"
    using vy by (simp add: vx_def vz_def)
  define s2 where "s2 = attitudeStep DefaultFdmConfig neutralInputs dt s"
  have s2: "s2 = s\<lparr> angularRatesRadPerSec := \<lparr> rate_p = 0, rate_q = 0, rate_r = 0 \<rparr>,
               orientation := qid, yawRad := 0, pitchRad := 0, rollRad := 0 \<rparr>"
    unfolding s2_def using q roll by (rule attitudeStep_level)
  have s2q: "orientation s2 = qid" and s2r: "rollRad s2 = 0"
    and s2v: "velocityEnuMetersPerSec s2 = \<lparr> vec_x = vx, vec_y = 0, vec_z = vz \<rparr>"
    by (simp_all add: s2 v)
  obtain L e where bf: "bodyForce defaultParams DefaultFdmConfig neutralInputs
                 \<lparr> vec_x = vx, vec_y = 0, vec_z = vz \<rparr>
               = \<lparr> vec_x = L + e * (- vx), vec_y = 0, vec_z = e * (- vz) \<rparr>"
    and L0: "L \<le> 0" and L_lo: "- 30 * (vz * vz) \<le> L" and L_neg: "vz \<le> - 0.1 \<Longrightarrow> L < 0"
    and e0: "0 \<le> e" and e_hi: "e \<le> 10 * (- vz)" and e_pos: "vz \<le> - 0.1 \<Longrightarrow> 0 < e"
    and e_lo: "0.001 \<le> magnitude \<lparr> vec_x = vx, vec_y = 0, vec_z = vz \<rparr> \<Longrightarrow>
               0.29 * (vz * vz) \<le> e * magnitude \<lparr> vec_x = vx, vec_y = 0, vec_z = vz \<rparr>"
    using bodyForce_falling_bounds [OF vx0 vz0] by blast
  have acc: "accelerationEnu defaultParams DefaultFdmConfig neutralInputs s2
             = \<lparr> vec_x = (L + e * (- vx)) / 1110, vec_y = 0,
                 vec_z = e * (- vz) / 1110 - 9.80665 \<rparr>"
  proof -
    have m: "massKg defaultParams = 1110" by (simp add: defaultParams_def)
    show ?thesis
      by (simp add: accelerationEnu_level [OF s2q] s2v bf m add_def scale_def field_simps
          GRAVITY_M_S2_def)
  qed
  define eps where "eps = dt * e / 1110"
  define wx where "wx = vx - eps * vx + dt * L / 1110"
  define wz where "wz = vz - eps * vz - 9.80665 * dt"
  have vint: "add (velocityEnuMetersPerSec s2)
                (scale (accelerationEnu defaultParams DefaultFdmConfig neutralInputs s2) dt)
              = \<lparr> vec_x = wx, vec_y = 0, vec_z = wz \<rparr>"
    by (simp add: acc s2v add_def scale_def wx_def wz_def eps_def field_simps)
  have vz_lo': "- 9.80665 * t \<le> vz" by (rule vz_lo)
  have vz_abs: "- vz \<le> 10" using vz_lo' t1 dt t0 by simp
  have eps0: "0 \<le> eps" unfolding eps_def using dt e0 by simp
  have "dt * e \<le> 0.02 * 100" using dt e0 e_hi vz_abs by (intro mult_mono) simp_all
  then have eps1: "eps \<le> 1" unfolding eps_def by simp
  have evx: "eps * vx \<le> 0" using eps0 vx0 by (rule mult_nonneg_nonpos)
  have evz: "eps * vz \<le> 0" using eps0 vz0 by (rule mult_nonneg_nonpos)
  have evx1: "vx \<le> eps * vx" using mult_right_mono_neg [OF eps1 vx0] by simp
  have evz1: "vz \<le> eps * vz" using mult_right_mono_neg [OF eps1 vz0] by simp
  have "(- vz) * (- vz) \<le> 10 * 10" using vz_abs vz0 by (intro mult_mono) simp_all
  then have "vz * vz \<le> 100" by simp
  then have "- 3000 \<le> L" using L_lo by simp
  then have "dt * (- 3000) \<le> dt * L" using dt by (intro mult_left_mono) simp_all
  then have dL_lo: "- 3 * dt \<le> dt * L / 1110" using dt by simp
  have dL0: "dt * L / 1110 \<le> 0" using dt L0 by (simp add: mult_le_0_iff divide_le_0_iff)
  have wx0: "wx \<le> 0" unfolding wx_def using evx1 dL0 by simp
  have wx_lo: "- 3 * (t + dt) \<le> wx" unfolding wx_def using vx_lo evx dL_lo by simp
  have wz_hi: "wz \<le> - 9.80665 * dt" unfolding wz_def using evz1 by simp
  have wz0: "wz \<le> 0" using wz_hi dt by simp
  have wz_lo: "- 9.80665 * (t + dt) \<le> wz" unfolding wz_def using vz_lo' evz by argo
  have "(- vz) * (- vz) \<le> 10 * 10" using vz_abs vz0 by (intro mult_mono) simp_all
  then have sq100: "vz * vz \<le> 100" by simp
  have "e * (- vz) \<le> (10 * (- vz)) * (- vz)" using e_hi vz0 by (intro mult_right_mono) simp_all
  then have "e * (- vz) \<le> 1000" using sq100 by simp
  then have "dt * (e * (- vz)) \<le> dt * 1000" using dt by (intro mult_left_mono) simp_all
  define P where "P = dt * (e * (- vz))"
  have dhi: "P \<le> dt * 1000" unfolding P_def by fact
  define D where "D = - (eps * vz)"
  have D_eq: "D = P / 1110" by (simp add: D_def eps_def P_def)
  have wz_eq: "wz = vz + D - 9.80665 * dt" by (simp add: wz_def D_def)
  have drag_hi: "D \<le> 0.91 * dt" unfolding D_eq using dhi dt by (simp add: field_simps)
  have wz8: "wz \<le> - 8 * (t + dt)" unfolding wz_eq using vz8 drag_hi dt by (simp add: field_simps)
  have wdefi: "0.0015 * (t + dt - 0.5) \<le> wz + 9.80665 * (t + dt)"
  proof (cases "t + dt \<le> 0.5")
    case True
    have "0 \<le> wz + 9.80665 * (t + dt)" using wz_lo by (simp add: field_simps)
    moreover have "0.0015 * (t + dt - 0.5) \<le> 0" using True by simp
    ultimately show ?thesis by linarith
  next
    case False
    define A where "A = - vz"
    define M where "M = magnitude \<lparr> vec_x = vx, vec_y = 0, vec_z = vz \<rparr>"
    have "0.48 \<le> t" using False dt by simp
    then have A_lo: "3.84 \<le> A" unfolding A_def using vz8 by simp
    have A0: "0 \<le> A" using A_lo by simp
    have "\<bar>vec_z \<lparr> vec_x = vx, vec_y = 0, vec_z = vz \<rparr>\<bar> \<le> M"
      unfolding M_def by (rule magnitude_ge_z)
    then have MA: "A \<le> M" unfolding A_def using vz0 by simp
    then have "0.001 \<le> M" using A_lo by simp
    then have "0.29 * (vz * vz) \<le> e * M" unfolding M_def by (rule e_lo)
    then have eM: "0.29 * (A * A) \<le> e * M" by (simp add: A_def)
    have "M \<le> \<bar>vx\<bar> + \<bar>vz\<bar>"
      using magnitude_le_sum [of "\<lparr> vec_x = vx, vec_y = 0, vec_z = vz \<rparr>"] by (simp add: M_def)
    also have "\<dots> \<le> 3 + A" using vx_lo vx0 vz0 t1 dt by (simp add: A_def)
    also have "\<dots> \<le> 1.8 * A" using A_lo by simp
    finally have "M \<le> 1.8 * A" .
    then have "e * M \<le> e * (1.8 * A)" using e0 by (rule mult_left_mono)
    then have eA: "0.29 * (A * A) \<le> 1.8 * (e * A)" using eM by simp
    have "3.84 * 3.84 \<le> A * A" using A_lo by (intro mult_mono) simp_all
    then have "4 \<le> 1.8 * (e * A)" using eA by simp
    then have "2 \<le> e * A" by simp
    then have "dt * 2 \<le> dt * (e * A)" using dt by (intro mult_left_mono) simp_all
    then have "dt * 2 \<le> P" unfolding P_def A_def .
    then have drag_lo: "0.0018 * dt \<le> D" unfolding D_eq using dt by (simp add: field_simps)
    show ?thesis unfolding wz_eq using defi drag_lo dt by (simp add: field_simps)
  qed
  have "magnitude \<lparr> vec_x = wx, vec_y = 0, vec_z = wz \<rparr> \<le> \<bar>wx\<bar> + \<bar>wz\<bar>"
    using magnitude_le_sum [of "\<lparr> vec_x = wx, vec_y = 0, vec_z = wz \<rparr>"] by simp
  also have "\<dots> \<le> 3 * (t + dt) + 9.80665 * (t + dt)" using wx0 wx_lo wz0 wz_lo by simp
  also have "\<dots> \<le> 250" using t1 by (simp add: add_divide_distrib)
  finally have slow: "magnitude \<lparr> vec_x = wx, vec_y = 0, vec_z = wz \<rparr> \<le> 250" .
  have s': "s' = s2\<lparr> velocityEnuMetersPerSec := \<lparr> vec_x = wx, vec_y = 0, vec_z = wz \<rparr>,
                 positionEnuMeters := add (positionEnuMeters s2)
                   (scale \<lparr> vec_x = wx, vec_y = 0, vec_z = wz \<rparr> dt) \<rparr>"
    unfolding s'_def substep_def Let_def s2_def [symmetric] vint
    by (simp add: limitSpeed_below [OF slow])
  have v': "velocityEnuMetersPerSec s' = \<lparr> vec_x = wx, vec_y = 0, vec_z = wz \<rparr>"
    and q': "orientation s' = qid" and r': "rollRad s' = 0"
    by (simp_all add: s' s2)
  show "fallingAt (t + dt) s'"
    using t0 dt wx0 wx_lo wz8 wz_lo wdefi by (simp add: fallingAt_def v' q' r' GRAVITY_M_S2_def)
  show "vec_z (velocityEnuMetersPerSec s') \<le> - GRAVITY_M_S2 * dt"
    using wz_hi by (simp add: v' GRAVITY_M_S2_def)
  show "vec_x (velocityEnuMetersPerSec s') < 0"
    if "vec_x (velocityEnuMetersPerSec s) < 0 \<or> vec_z (velocityEnuMetersPerSec s) \<le> - 0.1"
  proof -
    from that have "vx < 0 \<or> vz \<le> - 0.1" by (simp add: vx_def vz_def)
    then have "wx < 0"
    proof
      assume neg: "vx < 0"
      have "eps < 1"
      proof -
        have "dt * e \<le> 0.02 * 100" using dt e0 e_hi vz_abs by (intro mult_mono) simp_all
        then show ?thesis unfolding eps_def by simp
      qed
      then have "vx < eps * vx" using neg by simp
      then show ?thesis unfolding wx_def using dL0 by simp
    next
      assume "vz \<le> - 0.1"
      then have "L < 0" by (rule L_neg)
      then have "dt * L / 1110 < 0" using dt by (simp add: mult_less_0_iff divide_less_0_iff)
      then show ?thesis unfolding wx_def using evx1 by simp
    qed
    then show ?thesis by (simp add: v')
  qed
  show "- GRAVITY_M_S2 * (t + dt) < vec_z (velocityEnuMetersPerSec s')"
    if "- GRAVITY_M_S2 * t < vec_z (velocityEnuMetersPerSec s) \<or> vec_z (velocityEnuMetersPerSec s) \<le> - 0.1"
  proof -
    from that have "- 9.80665 * t < vz \<or> vz \<le> - 0.1" by (simp add: vz_def GRAVITY_M_S2_def)
    then have "- 9.80665 * (t + dt) < wz"
    proof
      assume "- 9.80665 * t < vz"
      then show ?thesis unfolding wz_def using evz by argo
    next
      assume low: "vz \<le> - 0.1"
      then have "0 < eps" unfolding eps_def using e_pos dt by simp
      moreover have "vz < 0" using low by simp
      ultimately have "eps * vz < 0" by (rule mult_pos_neg)
      then show ?thesis unfolding wz_def using vz_lo' by argo
    qed
    then show ?thesis by (simp add: v' GRAVITY_M_S2_def)
  qed
qed


lemma substep_drifting:
  assumes "driftingAt t s" and "0 < dt" and "dt \<le> 0.02" and "t + dt \<le> 1"
  shows "driftingAt (t + dt) (substep defaultParams DefaultFdmConfig neutralInputs dt s)"
  using assms substep_falling(1,3,4) [of t s dt] by (simp add: driftingAt_def)

lemma foldl_drifting:
  assumes "\<forall>dt \<in> set ds. 0 < dt \<and> dt \<le> 0.02" and "driftingAt t s" and "t + sum_list ds \<le> 1"
  shows "driftingAt (t + sum_list ds)
           (foldl (\<lambda>st dt. substep defaultParams DefaultFdmConfig neutralInputs dt st) s ds)"
  using assms
proof (induction ds arbitrary: t s)
  case Nil
  then show ?case by simp
next
  case (Cons d ds)
  have d: "0 < d" "d \<le> 0.02" using Cons.prems(1) by simp_all
  have pos: "0 \<le> sum_list ds" using Cons.prems(1) by (intro sum_list_nonneg) auto
  have "t + d \<le> 1" using Cons.prems(3) pos by simp
  from substep_drifting [OF Cons.prems(2) d this]
  have "driftingAt (t + d) (substep defaultParams DefaultFdmConfig neutralInputs d s)" .
  moreover have "\<forall>dt \<in> set ds. 0 < dt \<and> dt \<le> 0.02" using Cons.prems(1) by simp
  moreover have "t + d + sum_list ds \<le> 1" using Cons.prems(3) by simp
  ultimately have "driftingAt (t + d + sum_list ds)
           (foldl (\<lambda>st dt. substep defaultParams DefaultFdmConfig neutralInputs dt st)
              (substep defaultParams DefaultFdmConfig neutralInputs d s) ds)"
    by (intro Cons.IH)
  then show ?case by (simp add: add.assoc)
qed

lemma defaultModel_parts:
  "params defaultModel = defaultParams" "config defaultModel = DefaultFdmConfig"
  "orientation (state defaultModel) = qid" "rollRad (state defaultModel) = 0"
  "velocityEnuMetersPerSec (state defaultModel) = \<lparr> vec_x = 0, vec_y = 0, vec_z = 0 \<rparr>"
  by (simp_all add: defaultModel_def FlightDynamicsModel_new_def defaultState_def
      quaternionFromYawPitchRoll_def qid_def)

lemma defaultModel_falling: "fallingAt 0 (state defaultModel)"
  by (simp add: fallingAt_def defaultModel_parts)

lemma fallingAt_one:
  assumes "fallingAt 1 s"
  shows "- 9.80665 + 0.00075 \<le> vec_z (velocityEnuMetersPerSec s)"
  using assms by (simp add: fallingAt_def GRAVITY_M_S2_def)

lemma update_as_fold:
  "0 < d \<Longrightarrow>
   state (update (Num d) inputs m)
   = foldl (\<lambda>st dt. substep (params m) (config m) inputs dt st) (state m)
       (substepSizes (min d 0.25))"
  by (simp add: update_def update_loop_foldl)

lemma two_substeps_drifting:
  "driftingAt 0.04
     (substep defaultParams DefaultFdmConfig neutralInputs 0.02
       (substep defaultParams DefaultFdmConfig neutralInputs 0.02 (state defaultModel)))"
proof -
  define s1 where "s1 = substep defaultParams DefaultFdmConfig neutralInputs 0.02 (state defaultModel)"
  have f1: "fallingAt (0 + 0.02) s1"
    and z1: "vec_z (velocityEnuMetersPerSec s1) \<le> - GRAVITY_M_S2 * 0.02"
    unfolding s1_def by (rule substep_falling [OF defaultModel_falling]; simp)+
  have low: "vec_z (velocityEnuMetersPerSec s1) \<le> - 0.1"
    using z1 by (simp add: GRAVITY_M_S2_def)
  have f1': "fallingAt 0.02 s1" using f1 by simp
  have "fallingAt (0.02 + 0.02) (substep defaultParams DefaultFdmConfig neutralInputs 0.02 s1)"
    by (rule substep_falling(1) [OF f1']) simp_all
  moreover have "vec_x (velocityEnuMetersPerSec
      (substep defaultParams DefaultFdmConfig neutralInputs 0.02 s1)) < 0"
    by (rule substep_falling(3) [OF f1']) (simp_all add: low)
  moreover have "- GRAVITY_M_S2 * (0.02 + 0.02) < vec_z (velocityEnuMetersPerSec
      (substep defaultParams DefaultFdmConfig neutralInputs 0.02 s1))"
    by (rule substep_falling(4) [OF f1']) (simp_all add: low)
  ultimately show ?thesis by (simp add: driftingAt_def s1_def)
qed

lemma first_quarter_drifting:
  "driftingAt 0.25 (state (update (Num 0.25) neutralInputs defaultModel))"
proof -
  let ?step = "\<lambda>st dt. substep defaultParams DefaultFdmConfig neutralInputs dt st"
  let ?rest = "[0.02, 0.02, 0.02, 0.02, 0.02, 0.02, 0.02, 0.02, 0.02, 0.02, 0.01 :: real]"
  have t: "0.04 + sum_list ?rest = 0.25" by simp
  have "driftingAt (0.04 + sum_list ?rest)
          (foldl ?step (?step (?step (state defaultModel) 0.02) 0.02) ?rest)"
    by (rule foldl_drifting [OF _ two_substeps_drifting]) simp_all
  then have "driftingAt 0.25 (foldl ?step (?step (?step (state defaultModel) 0.02) 0.02) ?rest)"
    by (simp only: t)
  moreover have "state (update (Num 0.25) neutralInputs defaultModel)
        = foldl ?step (?step (?step (state defaultModel) 0.02) 0.02) ?rest"
    by (simp add: update_as_fold substepSizes_step substepSizes_done defaultModel_parts)
  ultimately show ?thesis by (simp only:)
qed

lemma later_quarter_drifting:
  assumes "driftingAt t (state m)" and "t + 0.25 \<le> 1"
    and "params m = defaultParams" and "config m = DefaultFdmConfig"
  shows "driftingAt (t + 0.25) (state (update (Num 0.25) neutralInputs m))"
proof -
  let ?step = "\<lambda>st dt. substep defaultParams DefaultFdmConfig neutralInputs dt st"
  let ?all = "[0.02, 0.02, 0.02, 0.02, 0.02, 0.02, 0.02, 0.02, 0.02, 0.02, 0.02, 0.02, 0.01 :: real]"
  have t: "sum_list ?all = 0.25" by simp
  have "driftingAt (t + sum_list ?all) (foldl ?step (state m) ?all)"
    by (rule foldl_drifting [OF _ assms(1)]) (use assms(2) in simp_all)
  then have "driftingAt (t + 0.25) (foldl ?step (state m) ?all)"
    by (simp only: t)
  moreover have "state (update (Num 0.25) neutralInputs m) = foldl ?step (state m) ?all"
    by (simp add: update_as_fold substepSizes_step substepSizes_done assms(3,4))
  ultimately show ?thesis by (simp only:)
qed

lemma update_keeps_params:
  "params (update dt inputs m) = params m" "config (update dt inputs m) = config m"
  by (cases dt; simp add: update_def)+

text \<open>
  C2. The set-up of the repository's gravity test, run on the code: the default aircraft
  at rest with all controls at zero. After four calls \<open>update(0.25, inputs)\<close>, which
  consume exactly one second, the world-X velocity is negative, not zero, and the
  world-Z velocity is above \<open>-9.80665 + 0.0005\<close>, so it does not equal \<open>-9.80665\<close>
  to three decimal places. After the test's own single call \<open>update(1, inputs)\<close>,
  which consumes only 0.25 s, the world-Z velocity is above \<open>-2.4516625\<close>.
\<close>

theorem gravity_test_velocity_after_one_second:
  "vec_x (velocityEnuMetersPerSec (state (updates
      [(Num 0.25, neutralInputs), (Num 0.25, neutralInputs),
       (Num 0.25, neutralInputs), (Num 0.25, neutralInputs)] defaultModel))) < 0
   \<and> - 9.80665 + 0.0005 < vec_z (velocityEnuMetersPerSec (state (updates
      [(Num 0.25, neutralInputs), (Num 0.25, neutralInputs),
       (Num 0.25, neutralInputs), (Num 0.25, neutralInputs)] defaultModel)))
   \<and> - 2.4516625 < vec_z (velocityEnuMetersPerSec (state (updates
      [(Num 1, neutralInputs)] defaultModel)))"
proof -
  define m1 where "m1 = update (Num 0.25) neutralInputs defaultModel"
  define m2 where "m2 = update (Num 0.25) neutralInputs m1"
  define m3 where "m3 = update (Num 0.25) neutralInputs m2"
  define m4 where "m4 = update (Num 0.25) neutralInputs m3"
  have p: "params m1 = defaultParams" "config m1 = DefaultFdmConfig"
    "params m2 = defaultParams" "config m2 = DefaultFdmConfig"
    "params m3 = defaultParams" "config m3 = DefaultFdmConfig"
    by (simp_all add: m1_def m2_def m3_def update_keeps_params defaultModel_parts)
  have d1: "driftingAt 0.25 (state m1)" unfolding m1_def by (rule first_quarter_drifting)
  have "driftingAt (0.25 + 0.25) (state m2)" unfolding m2_def
    by (rule later_quarter_drifting [OF d1]) (simp_all add: p)
  then have d2: "driftingAt 0.5 (state m2)" by simp
  have "driftingAt (0.5 + 0.25) (state m3)" unfolding m3_def
    by (rule later_quarter_drifting [OF d2]) (simp_all add: p)
  then have d3: "driftingAt 0.75 (state m3)" by simp
  have "driftingAt (0.75 + 0.25) (state m4)" unfolding m4_def
    by (rule later_quarter_drifting [OF d3]) (simp_all add: p)
  then have d4: "driftingAt 1 (state m4)" by simp
  have one: "state (updates [(Num 1, neutralInputs)] defaultModel) = state m1"
    by (simp add: m1_def update_as_fold)
  have m4: "updates [(Num 0.25, neutralInputs), (Num 0.25, neutralInputs),
       (Num 0.25, neutralInputs), (Num 0.25, neutralInputs)] defaultModel = m4"
    by (simp add: m1_def m2_def m3_def m4_def)
  have "fallingAt 1 (state m4)" using d4 by (simp add: driftingAt_def)
  then have "- 9.80665 + 0.00075 \<le> vec_z (velocityEnuMetersPerSec (state m4))"
    by (rule fallingAt_one)
  then have z4: "- 9.80665 + 0.0005 < vec_z (velocityEnuMetersPerSec (state m4))" by simp
  have x4: "vec_x (velocityEnuMetersPerSec (state m4)) < 0" using d4 by (simp add: driftingAt_def)
  have z1: "- 2.4516625 < vec_z (velocityEnuMetersPerSec (state m1))"
    using d1 by (simp add: driftingAt_def GRAVITY_M_S2_def)
  show ?thesis unfolding m4 one using x4 z4 z1 by blast
qed


section \<open>No wind in the airflow\<close>




end
